theory Spec2Isabelle
  imports Complex_Main
begin

section \<open>Middleware of the Tradera client: rate limiter, retryer, cache, error classifier\<close>

text \<open>
  The Go sources embedded here are \<^verbatim>\<open>middleware/ratelimit.go\<close>, \<^verbatim>\<open>middleware/retry.go\<close>,
  the cache (\<^verbatim>\<open>middleware\<close> package, \<^verbatim>\<open>Cache\<close>), the error types with \<^verbatim>\<open>IsRetryable\<close>,
  \<^verbatim>\<open>executeWithMiddlewareResult\<close> of \<^verbatim>\<open>tradera.go\<close> and \<^verbatim>\<open>GetCategories\<close> of
  \<^verbatim>\<open>public_client.go\<close>.

  Conventions of the embedding.
  \<^item> \<^verbatim>\<open>time.Duration\<close> and \<^verbatim>\<open>time.Time\<close> are integers counting nanoseconds; every call of
    \<^verbatim>\<open>time.Now()\<close> in the source is an explicit clock reading passed to the model.
  \<^item> The \<^verbatim>\<open>float64\<close> fields of the rate limiter are modelled by \<open>real\<close>: exact arithmetic.
    The \<^verbatim>\<open>float64\<close> computation of the retryer has overflow, infinities and NaN, and is
    exact inside the finite range. The conversion \<^verbatim>\<open>time.Duration(f)\<close> truncates towards
    zero into the range of \<^verbatim>\<open>int64\<close>.
  \<^item> \<^verbatim>\<open>rand.Float64()\<close> is an explicit argument \<open>u\<close>, a number in \<open>[0, 1)\<close>.
  \<^item> A Go \<^verbatim>\<open>error\<close> is \<open>error option\<close>, \<open>None\<close> being \<^verbatim>\<open>nil\<close>.
  \<^item> A closure \<^verbatim>\<open>fn\<close> that a middleware invokes is a state transformer over an arbitrary
    state \<open>'s\<close>; the models count its invocations.
  \<^item> Mutexes are not modelled: every method runs atomically, one caller at a time.
\<close>

subsection \<open>Errors\<close>

text \<open>
  The sentinel errors (\<^verbatim>\<open>errors.New\<close> values, compared by identity), the three struct
  errors of the package, the two errors of package \<^verbatim>\<open>context\<close>, a wrapper as
  \<^verbatim>\<open>fmt.Errorf("...%w", err)\<close> builds it, and \<open>Opaque\<close> for any other error value without
  \<^verbatim>\<open>Unwrap\<close>, \<^verbatim>\<open>Is\<close> or \<^verbatim>\<open>As\<close> methods.
\<close>

datatype error =
    ErrInvalidAppID
  | ErrInvalidAppKey
  | ErrAuthRequired
  | ErrRateLimited
  | ErrTimeout
  | ErrNotFound
  | APIError string string string
  | SOAPFault string string string
  | NetworkError string "error option"
  | Canceled
  | DeadlineExceeded
  | Wrapped string error
  | Opaque string

text \<open>\<^verbatim>\<open>Unwrap\<close>: \<^verbatim>\<open>NetworkError\<close> returns its \<^verbatim>\<open>Err\<close> field, a \<^verbatim>\<open>%w\<close> wrapper its operand.\<close>

fun Unwrap :: "error \<Rightarrow> error option" where
  "Unwrap (NetworkError opn e) = e"
| "Unwrap (Wrapped msg e) = Some e"
| "Unwrap _ = None"

text \<open>\<^verbatim>\<open>(*APIError).Is\<close>: the target must be an \<^verbatim>\<open>*APIError\<close> with the same code.\<close>

fun APIError_Is :: "string \<Rightarrow> error \<Rightarrow> bool" where
  "APIError_Is code (APIError c m d) = (code = c)"
| "APIError_Is code _ = False"

text \<open>The \<^verbatim>\<open>Is\<close> method of an error value, for the types that declare one.\<close>

fun Is_method :: "error \<Rightarrow> (error \<Rightarrow> bool) option" where
  "Is_method (APIError c m d) = Some (APIError_Is c)"
| "Is_method _ = None"

text \<open>
  \<^verbatim>\<open>errors.Is(err, target)\<close> of the standard library, for a non-nil \<open>err\<close>: walk the
  \<^verbatim>\<open>Unwrap\<close> chain; a link matches when it equals the target or its \<^verbatim>\<open>Is\<close> method accepts
  the target.
\<close>

function errors_Is :: "error \<Rightarrow> error \<Rightarrow> bool" where
  "errors_Is err target =
     (if err = target then True
      else if (case Is_method err of Some m \<Rightarrow> m target | None \<Rightarrow> False) then True
      else (case Unwrap err of None \<Rightarrow> False | Some e \<Rightarrow> errors_Is e target))"
  by pat_completeness auto
termination
  by (relation "measure (\<lambda>(err, target). size err)") (auto elim: Unwrap.elims)

text \<open>
  \<^verbatim>\<open>errors.As(err, &target)\<close> for a target of pointer-to-struct type: walk the chain; a link
  matches when its dynamic type is the target's type, given here as a predicate.
\<close>

function errors_As :: "(error \<Rightarrow> bool) \<Rightarrow> error \<Rightarrow> bool" where
  "errors_As has_type err =
     (if has_type err then True
      else (case Unwrap err of None \<Rightarrow> False | Some e \<Rightarrow> errors_As has_type e))"
  by pat_completeness auto
termination
  by (relation "measure (\<lambda>(has_type, err). size err)") (auto elim: Unwrap.elims)

fun is_NetworkError :: "error \<Rightarrow> bool" where
  "is_NetworkError (NetworkError opn e) = True"
| "is_NetworkError _ = False"

fun is_SOAPFault :: "error \<Rightarrow> bool" where
  "is_SOAPFault (SOAPFault c s d) = True"
| "is_SOAPFault _ = False"

fun is_APIError :: "error \<Rightarrow> bool" where
  "is_APIError (APIError c m d) = True"
| "is_APIError _ = False"

definition IsRetryable :: "error option \<Rightarrow> bool" where
  "IsRetryable err =
     (case err of
        None \<Rightarrow> False
      | Some e \<Rightarrow>
          if errors_As is_NetworkError e then True
          else if errors_Is e ErrRateLimited then True
          else if errors_Is e ErrTimeout then True
          else if errors_As is_SOAPFault e then False
          else if errors_As is_APIError e then False
          else False)"

subsection \<open>\<^verbatim>\<open>float64\<close> in the retryer\<close>

text \<open>
  A \<^verbatim>\<open>float64\<close> value of the retryer is a finite number, an infinity or NaN. An operation
  whose exact result exceeds the largest finite \<^verbatim>\<open>float64\<close> in magnitude gives an
  infinity, and the special values follow IEEE 754. Inside the finite range the
  operations are exact: rounding to 53 bits is modelled only for the conversion from
  \<^verbatim>\<open>int64\<close>, and there is one zero.
\<close>

datatype float64 = Finite real | PosInf | NegInf | NaN

definition MaxFloat64 :: real where
  "MaxFloat64 = (2 ^ 53 - 1) * 2 ^ 971"

definition MinInt64 :: int where
  "MinInt64 = - (2 ^ 63)"

definition overflow :: "real \<Rightarrow> float64" where
  "overflow x = (if x > MaxFloat64 then PosInf else if x < - MaxFloat64 then NegInf else Finite x)"

text \<open>The infinity with the sign of \<open>a\<close>; zero times infinity is NaN.\<close>

definition signed_inf :: "real \<Rightarrow> float64" where
  "signed_inf a = (if a > 0 then PosInf else if a < 0 then NegInf else NaN)"

fun fmul :: "float64 \<Rightarrow> float64 \<Rightarrow> float64" where
  "fmul NaN y = NaN"
| "fmul x NaN = NaN"
| "fmul (Finite a) (Finite b) = overflow (a * b)"
| "fmul (Finite a) PosInf = signed_inf a"
| "fmul (Finite a) NegInf = signed_inf (- a)"
| "fmul PosInf (Finite b) = signed_inf b"
| "fmul NegInf (Finite b) = signed_inf (- b)"
| "fmul PosInf PosInf = PosInf"
| "fmul PosInf NegInf = NegInf"
| "fmul NegInf PosInf = NegInf"
| "fmul NegInf NegInf = PosInf"

fun fadd :: "float64 \<Rightarrow> float64 \<Rightarrow> float64" where
  "fadd NaN y = NaN"
| "fadd x NaN = NaN"
| "fadd (Finite a) (Finite b) = overflow (a + b)"
| "fadd (Finite a) PosInf = PosInf"
| "fadd (Finite a) NegInf = NegInf"
| "fadd PosInf (Finite b) = PosInf"
| "fadd NegInf (Finite b) = NegInf"
| "fadd PosInf PosInf = PosInf"
| "fadd PosInf NegInf = NaN"
| "fadd NegInf PosInf = NaN"
| "fadd NegInf NegInf = NegInf"

fun fneg :: "float64 \<Rightarrow> float64" where
  "fneg NaN = NaN"
| "fneg (Finite a) = Finite (- a)"
| "fneg PosInf = NegInf"
| "fneg NegInf = PosInf"

definition fsub :: "float64 \<Rightarrow> float64 \<Rightarrow> float64" where
  "fsub x y = fadd x (fneg y)"

text \<open>The comparisons; every comparison with NaN is false.\<close>

fun flt :: "float64 \<Rightarrow> float64 \<Rightarrow> bool" where
  "flt NaN y = False"
| "flt x NaN = False"
| "flt (Finite a) (Finite b) = (a < b)"
| "flt (Finite a) PosInf = True"
| "flt (Finite a) NegInf = False"
| "flt PosInf y = False"
| "flt NegInf (Finite b) = True"
| "flt NegInf PosInf = True"
| "flt NegInf NegInf = False"

definition fgt :: "float64 \<Rightarrow> float64 \<Rightarrow> bool" where
  "fgt x y = flt y x"

fun feq :: "float64 \<Rightarrow> float64 \<Rightarrow> bool" where
  "feq NaN y = False"
| "feq x NaN = False"
| "feq x y = (x = y)"

definition fle :: "float64 \<Rightarrow> float64 \<Rightarrow> bool" where
  "fle x y = (flt x y \<or> feq x y)"

text \<open>
  \<^verbatim>\<open>math.Pow(x, float64(n))\<close> for an integer \<open>n\<close>, with the special cases of its
  documentation: \<^verbatim>\<open>Pow(x, 0) = 1\<close> for every \<open>x\<close>, NaN otherwise stays NaN, a zero base with
  a negative exponent gives an infinity, an infinite base gives an infinity or zero.
\<close>

fun Pow :: "float64 \<Rightarrow> int \<Rightarrow> float64" where
  "Pow NaN n = (if n = 0 then Finite 1 else NaN)"
| "Pow (Finite a) n =
     (if n = 0 then Finite 1
      else if a = 0 \<and> n < 0 then PosInf
      else overflow (a powi n))"
| "Pow PosInf n = (if n = 0 then Finite 1 else if n < 0 then Finite 0 else PosInf)"
| "Pow NegInf n =
     (if n = 0 then Finite 1 else if n < 0 then Finite 0
      else if odd n then NegInf else PosInf)"

text \<open>
  The number of low bits that do not fit into the 53 bits of a \<^verbatim>\<open>float64\<close>, and the
  conversion \<^verbatim>\<open>float64(x)\<close> of an \<^verbatim>\<open>int64\<close>, which rounds to the nearest value with 53
  bits, ties to the even one.
\<close>

function excess_bits :: "nat \<Rightarrow> nat" where
  "excess_bits a = (if a < 2 ^ 53 then 0 else Suc (excess_bits (a div 2)))"
  by pat_completeness auto
termination
  by (relation "measure (\<lambda>a. a)") auto

definition float64_of_int64 :: "int \<Rightarrow> real" where
  "float64_of_int64 x =
     (let a = nat \<bar>x\<bar>;
          e = excess_bits a;
          q = a div 2 ^ e;
          rem = a mod 2 ^ e;
          q' = (if 2 * rem > 2 ^ e \<or> (2 * rem = 2 ^ e \<and> odd q) then q + 1 else q)
      in real_of_int (sgn x) * real (q' * 2 ^ e))"

text \<open>
  \<^verbatim>\<open>time.Duration(f)\<close> for a float \<open>f\<close>: the fraction is discarded (truncation towards zero).
  When the truncated value is not an \<^verbatim>\<open>int64\<close>, or \<open>f\<close> is an infinity or NaN, Go leaves
  the result to the implementation; the model returns the smallest \<^verbatim>\<open>int64\<close>, as the
  amd64 conversion does.
\<close>

definition Duration :: "real \<Rightarrow> int" where
  "Duration f =
     (let t = (if 0 \<le> f then \<lfloor>f\<rfloor> else \<lceil>f\<rceil>)
      in if MinInt64 \<le> t \<and> t < 2 ^ 63 then t else MinInt64)"

fun Duration_float64 :: "float64 \<Rightarrow> int" where
  "Duration_float64 (Finite f) = Duration f"
| "Duration_float64 x = MinInt64"

subsection \<open>Retryer\<close>

record RetryConfig =
  MaxRetries :: int
  BaseDelay :: int
  MaxDelay :: int
  Multiplier :: float64
  Jitter :: float64
  ShouldRetry :: "(error \<Rightarrow> bool) option"

record Retryer =
  config :: RetryConfig

definition Millisecond :: int where
  "Millisecond = 1000000"

definition Second :: int where
  "Second = 1000000000"

definition NewRetryer :: "RetryConfig \<Rightarrow> Retryer" where
  "NewRetryer cfg =
     (let c1 = (if MaxRetries cfg \<le> 0 then cfg\<lparr>MaxRetries := 3\<rparr> else cfg);
          c2 = (if BaseDelay c1 \<le> 0 then c1\<lparr>BaseDelay := Second\<rparr> else c1);
          c3 = (if MaxDelay c2 \<le> 0 then c2\<lparr>MaxDelay := 30 * Second\<rparr> else c2);
          c4 = (if fle (Multiplier c3) (Finite 0) then c3\<lparr>Multiplier := Finite 2\<rparr> else c3);
          c5 = (if flt (Jitter c4) (Finite 0) then c4\<lparr>Jitter := Finite 0\<rparr> else c4);
          c6 = (if fgt (Jitter c5) (Finite 1) then c5\<lparr>Jitter := Finite 1\<rparr> else c5)
      in \<lparr>config = c6\<rparr>)"

text \<open>
  \<^verbatim>\<open>calculateDelay(attempt)\<close>; \<open>u\<close> is the value of \<^verbatim>\<open>rand.Float64()\<close>, a finite number drawn
  only when \<^verbatim>\<open>Jitter > 0\<close>. The attempt number is converted to \<^verbatim>\<open>float64\<close> exactly.
\<close>

definition calculateDelay :: "Retryer \<Rightarrow> int \<Rightarrow> real \<Rightarrow> int" where
  "calculateDelay r attempt u =
     (let delay0 = fmul (Finite (float64_of_int64 (BaseDelay (config r))))
                        (Pow (Multiplier (config r)) attempt);
          delay1 = (if fgt (Jitter (config r)) (Finite 0)
                    then (let jitterRange = fmul delay0 (Jitter (config r))
                          in fadd (fsub delay0 jitterRange)
                                  (fmul (fmul (Finite u) (Finite 2)) jitterRange))
                    else delay0);
          delay2 = (if fgt delay1 (Finite (float64_of_int64 (MaxDelay (config r))))
                    then Finite (float64_of_int64 (MaxDelay (config r))) else delay1)
      in Duration_float64 delay2)"

subsection \<open>Contexts and \<^verbatim>\<open>select\<close>\<close>

text \<open>
  A context as one call observes it: either it is not cancelled for the whole call, or it
  was cancelled (or its deadline had passed) before the call began, with the error that
  \<^verbatim>\<open>ctx.Err()\<close> returns. A context cancelled in the middle of a call is not modelled.
\<close>

datatype Context = Uncancelled | Cancelled error

fun ctx_Err :: "Context \<Rightarrow> error option" where
  "ctx_Err Uncancelled = None"
| "ctx_Err (Cancelled e) = Some e"

datatype select_case = CtxDone | TimerFired

text \<open>
  \<^verbatim>\<open>select { case <-ctx.Done(): ... case <-time.After(d): ... }\<close>. With a live context only
  the timer can fire. With a cancelled context \<^verbatim>\<open>ctx.Done()\<close> is ready at once; the timer
  is ready too only if \<open>d \<le> 0\<close> (a timer of positive duration has not fired yet when the
  \<^verbatim>\<open>select\<close> is evaluated), and Go then chooses between the ready cases at random:
  \<open>pick\<close> is that choice.
\<close>

fun select_Done_After :: "Context \<Rightarrow> int \<Rightarrow> bool \<Rightarrow> select_case" where
  "select_Done_After Uncancelled d pick = TimerFired"
| "select_Done_After (Cancelled e) d pick = (if d \<le> 0 \<and> pick then TimerFired else CtxDone)"

text \<open>
  What the runtime supplies to one call of the retryer: the random draw of
  \<^verbatim>\<open>calculateDelay\<close> and the choice of \<^verbatim>\<open>select\<close>, each indexed by the attempt.
\<close>

record runtime =
  rand_Float64 :: "int \<Rightarrow> real"
  select_pick :: "int \<Rightarrow> bool"

text \<open>
  \<^verbatim>\<open>Retryer.Do\<close>. The loop \<^verbatim>\<open>for attempt := 0; attempt <= MaxRetries; attempt++\<close> is the
  recursion of \<open>Do_loop\<close> on \<open>attempt\<close>; \<open>lastErr\<close>, the state \<open>s\<close> of the closure and the
  number of its invocations so far are carried along. The result is the returned error,
  the closure's final state and the number of invocations.
\<close>

function Do_loop ::
  "Retryer \<Rightarrow> Context \<Rightarrow> ('s \<Rightarrow> error option \<times> 's) \<Rightarrow> runtime \<Rightarrow>
   int \<Rightarrow> error option \<Rightarrow> 's \<Rightarrow> nat \<Rightarrow> error option \<times> 's \<times> nat" where
  "Do_loop r ctx fn rt attempt lastErr s calls =
     (if attempt \<le> MaxRetries (config r) then
        (case fn s of
           (None, s') \<Rightarrow> (None, s', Suc calls)
         | (Some err, s') \<Rightarrow>
             if ShouldRetry (config r) \<noteq> None \<and> \<not> the (ShouldRetry (config r)) err
             then (Some err, s', Suc calls)
             else if attempt = MaxRetries (config r)
             then (Some err, s', Suc calls)
             else (case select_Done_After ctx
                          (calculateDelay r attempt (rand_Float64 rt attempt))
                          (select_pick rt attempt) of
                     CtxDone \<Rightarrow> (ctx_Err ctx, s', Suc calls)
                   | TimerFired \<Rightarrow> Do_loop r ctx fn rt (attempt + 1) (Some err) s' (Suc calls)))
      else (lastErr, s, calls))"
  by pat_completeness auto
termination
  by (relation "measure (\<lambda>(r, ctx, fn, rt, attempt, lastErr, s, calls).
                  nat (MaxRetries (config r) + 1 - attempt))") auto

definition Do ::
  "Retryer \<Rightarrow> Context \<Rightarrow> ('s \<Rightarrow> error option \<times> 's) \<Rightarrow> runtime \<Rightarrow> 's \<Rightarrow> error option \<times> 's \<times> nat" where
  "Do r ctx fn rt s = Do_loop r ctx fn rt 0 None s 0"

text \<open>
  \<^verbatim>\<open>DoWithResult\<close>: the same loop for a closure returning \<^verbatim>\<open>(T, error)\<close>; \<open>result\<close> starts
  as the zero value of \<open>T\<close> and holds what the last invocation returned.
\<close>

function DoWithResult_loop ::
  "Context \<Rightarrow> Retryer \<Rightarrow> ('s \<Rightarrow> ('r \<times> error option) \<times> 's) \<Rightarrow> runtime \<Rightarrow>
   int \<Rightarrow> 'r \<Rightarrow> error option \<Rightarrow> 's \<Rightarrow> nat \<Rightarrow> ('r \<times> error option) \<times> 's \<times> nat" where
  "DoWithResult_loop ctx r fn rt attempt result lastErr s calls =
     (if attempt \<le> MaxRetries (config r) then
        (case fn s of
           ((result', None), s') \<Rightarrow> ((result', None), s', Suc calls)
         | ((result', Some err), s') \<Rightarrow>
             if ShouldRetry (config r) \<noteq> None \<and> \<not> the (ShouldRetry (config r)) err
             then ((result', Some err), s', Suc calls)
             else if attempt = MaxRetries (config r)
             then ((result', Some err), s', Suc calls)
             else (case select_Done_After ctx
                          (calculateDelay r attempt (rand_Float64 rt attempt))
                          (select_pick rt attempt) of
                     CtxDone \<Rightarrow> ((result', ctx_Err ctx), s', Suc calls)
                   | TimerFired \<Rightarrow>
                       DoWithResult_loop ctx r fn rt (attempt + 1) result' (Some err) s' (Suc calls)))
      else ((result, lastErr), s, calls))"
  by pat_completeness auto
termination
  by (relation "measure (\<lambda>(ctx, r, fn, rt, attempt, result, lastErr, s, calls).
                  nat (MaxRetries (config r) + 1 - attempt))") auto

definition DoWithResult ::
  "Context \<Rightarrow> Retryer \<Rightarrow> ('s \<Rightarrow> ('r \<times> error option) \<times> 's) \<Rightarrow> runtime \<Rightarrow> 'r \<Rightarrow> 's \<Rightarrow>
   ('r \<times> error option) \<times> 's \<times> nat" where
  "DoWithResult ctx r fn rt zero s = DoWithResult_loop ctx r fn rt 0 zero None s 0"

subsection \<open>Rate limiter\<close>

record RateLimiter =
  rate :: real
  bucketSize :: real
  tokens :: real
  lastUpdate :: int

text \<open>The last argument of the constructors is the reading of \<^verbatim>\<open>time.Now()\<close>.\<close>

definition NewRateLimiterWithBurst :: "real \<Rightarrow> real \<Rightarrow> int \<Rightarrow> RateLimiter" where
  "NewRateLimiterWithBurst requestsPerSecond burstCapacity now =
     \<lparr>rate = requestsPerSecond, bucketSize = burstCapacity,
      tokens = burstCapacity, lastUpdate = now\<rparr>"

definition NewRateLimiter :: "real \<Rightarrow> int \<Rightarrow> RateLimiter" where
  "NewRateLimiter requestsPerSecond now =
     NewRateLimiterWithBurst requestsPerSecond requestsPerSecond now"

text \<open>\<^verbatim>\<open>Duration.Seconds()\<close>: a duration in nanoseconds as a float number of seconds.\<close>

definition Seconds :: "int \<Rightarrow> real" where
  "Seconds d = real_of_int d / 1000000000"

definition refillTokens :: "int \<Rightarrow> RateLimiter \<Rightarrow> RateLimiter" where
  "refillTokens now r =
     (let elapsed = Seconds (now - lastUpdate r);
          r1 = r\<lparr>lastUpdate := now\<rparr>;
          r2 = r1\<lparr>tokens := tokens r1 + elapsed * rate r1\<rparr>
      in if tokens r2 > bucketSize r2 then r2\<lparr>tokens := bucketSize r2\<rparr> else r2)"

definition TryAcquire :: "int \<Rightarrow> RateLimiter \<Rightarrow> bool \<times> RateLimiter" where
  "TryAcquire now r =
     (let r1 = refillTokens now r
      in if tokens r1 \<ge> 1 then (True, r1\<lparr>tokens := tokens r1 - 1\<rparr>) else (False, r1))"

text \<open>
  \<^verbatim>\<open>timeUntilNextToken\<close>. The source divides by \<^verbatim>\<open>rate\<close>; the limiter is built with a
  positive rate only (\<^verbatim>\<open>NewClient\<close> checks \<^verbatim>\<open>RateLimit > 0\<close>).
\<close>

definition timeUntilNextToken :: "RateLimiter \<Rightarrow> int" where
  "timeUntilNextToken r =
     (if tokens r \<ge> 1 then 0
      else (let tokensNeeded = 1 - tokens r;
                secondsNeeded = tokensNeeded / rate r
            in Duration (secondsNeeded * real_of_int Second)))"


text \<open>
  What the runtime supplies to one call of \<^verbatim>\<open>Wait\<close>: the clock reading of the \<open>i\<close>-th
  \<^verbatim>\<open>TryAcquire\<close> and the choice of the \<open>i\<close>-th \<^verbatim>\<open>select\<close>.
\<close>

record wait_runtime =
  wait_Now :: "nat \<Rightarrow> int"
  wait_pick :: "nat \<Rightarrow> bool"

text \<open>
  \<^verbatim>\<open>Wait\<close>: the \<^verbatim>\<open>for\<close> loop has no bound, so the model is a partial function and \<open>None\<close>
  means that the call does not return. The result is the returned error and the state of
  the limiter.
\<close>

partial_function (option) Wait_loop ::
  "RateLimiter \<Rightarrow> Context \<Rightarrow> wait_runtime \<Rightarrow> nat \<Rightarrow> (error option \<times> RateLimiter) option" where
  "Wait_loop r ctx wrt i =
     (let (acquired, r1) = TryAcquire (wait_Now wrt i) r
      in if acquired then Some (None, r1)
         else (case select_Done_After ctx (timeUntilNextToken r1) (wait_pick wrt i) of
                 CtxDone \<Rightarrow> Some (ctx_Err ctx, r1)
               | TimerFired \<Rightarrow> Wait_loop r1 ctx wrt (Suc i)))"

definition Wait :: "RateLimiter \<Rightarrow> Context \<Rightarrow> wait_runtime \<Rightarrow> (error option \<times> RateLimiter) option" where
  "Wait r ctx wrt = Wait_loop r ctx wrt 0"

subsection \<open>Cache\<close>

text \<open>
  Types. A concrete type is one of a few built-in types, the category slice, or a named
  type with the names of its methods. An interface type is given by the names of the
  methods it demands; \<^verbatim>\<open>any\<close> is \<open>Interface []\<close>. A concrete type implements an interface
  type when it has every demanded method.
\<close>

datatype concrete_type =
  T_int | T_string | T_bool | T_CategorySlice | T_named string "string list"

datatype go_type = Concrete concrete_type | Interface "string list"

fun method_set :: "concrete_type \<Rightarrow> string list" where
  "method_set (T_named name methods) = methods"
| "method_set T = []"

text \<open>
  A value of type \<^verbatim>\<open>interface{}\<close> is \<^verbatim>\<open>nil\<close> (\<open>None\<close>) or a pair of a concrete dynamic type and
  the data of that type.
\<close>

type_synonym 'a any = "(concrete_type \<times> 'a) option"

record 'a CacheEntry =
  Value :: "'a any"
  Expiration :: int

text \<open>
  The fields \<^verbatim>\<open>cleanupInterval\<close> and \<^verbatim>\<open>stopCleanup\<close> serve the background goroutine, which
  is not modelled.
\<close>

record 'a Cache =
  defaultTTL :: int
  entries :: "string \<rightharpoonup> 'a CacheEntry"

text \<open>\<^verbatim>\<open>IsExpired\<close>: \<^verbatim>\<open>time.Now().After(e.Expiration)\<close>, with the clock reading \<open>now\<close>.\<close>

definition IsExpired :: "'a CacheEntry \<Rightarrow> int \<Rightarrow> bool" where
  "IsExpired e now = (now > Expiration e)"

definition Delete :: "'a Cache \<Rightarrow> string \<Rightarrow> 'a Cache" where
  "Delete c key = c\<lparr>entries := (entries c)(key := None)\<rparr>"

definition SetWithTTL :: "'a Cache \<Rightarrow> string \<Rightarrow> 'a any \<Rightarrow> int \<Rightarrow> int \<Rightarrow> 'a Cache" where
  "SetWithTTL c key v ttl now =
     c\<lparr>entries := (entries c)(key \<mapsto> \<lparr>Value = v, Expiration = now + ttl\<rparr>)\<rparr>"

definition Set :: "'a Cache \<Rightarrow> string \<Rightarrow> 'a any \<Rightarrow> int \<Rightarrow> 'a Cache" where
  "Set c key v now = SetWithTTL c key v (defaultTTL c) now"

definition Get :: "'a Cache \<Rightarrow> string \<Rightarrow> int \<Rightarrow> ('a any \<times> bool) \<times> 'a Cache" where
  "Get c key now =
     (case entries c key of
        None \<Rightarrow> ((None, False), c)
      | Some entry \<Rightarrow>
          if IsExpired entry now then ((None, False), Delete c key)
          else ((Value entry, True), c))"

text \<open>
  The type assertion \<^verbatim>\<open>value.(T)\<close> in its two-result form: \<open>None\<close> when it fails, the
  value with its dynamic type when it holds. It fails on \<^verbatim>\<open>nil\<close>; for a concrete \<open>T\<close> it
  holds when the dynamic type is \<open>T\<close>, for an interface \<open>T\<close> when the dynamic type
  implements \<open>T\<close>.
\<close>

fun type_assert :: "go_type \<Rightarrow> 'a any \<Rightarrow> (concrete_type \<times> 'a) option" where
  "type_assert T None = None"
| "type_assert (Concrete ct) (Some (T', x)) = (if T' = ct then Some (T', x) else None)"
| "type_assert (Interface ms) (Some (T', x)) =
     (if set ms \<subseteq> set (method_set T') then Some (T', x) else None)"

text \<open>
  \<^verbatim>\<open>GetTyped[T]\<close>; \<open>zero\<close> is the zero value of \<open>T\<close>. A value of type \<open>T\<close> is written with
  its dynamic type, so for an interface \<open>T\<close> the zero value is \<open>None\<close>.
\<close>

definition GetTyped ::
  "go_type \<Rightarrow> 'a any \<Rightarrow> 'a Cache \<Rightarrow> string \<Rightarrow> int \<Rightarrow> ('a any \<times> bool) \<times> 'a Cache" where
  "GetTyped T zero c key now =
     (case Get c key now of
        ((v, False), c') \<Rightarrow> ((zero, False), c')
      | ((v, True), c') \<Rightarrow>
          (case type_assert T v of
             None \<Rightarrow> ((zero, False), c')
           | Some typed \<Rightarrow> ((Some typed, True), c')))"

text \<open>
  \<^verbatim>\<open>GetOrSet\<close>. \<open>now_get\<close> is the clock reading of the lookup, \<open>now_set\<close> the later one of
  the store. The result is the returned pair, the cache, the state of \<^verbatim>\<open>fn\<close> and the
  number of its invocations.
\<close>

definition GetOrSet ::
  "'a Cache \<Rightarrow> string \<Rightarrow> ('s \<Rightarrow> ('a any \<times> error option) \<times> 's) \<Rightarrow> int \<Rightarrow> int \<Rightarrow> 's \<Rightarrow>
   ('a any \<times> error option) \<times> 'a Cache \<times> 's \<times> nat" where
  "GetOrSet c key fn now_get now_set s =
     (case Get c key now_get of
        ((v, True), c') \<Rightarrow> ((v, None), c', s, 0)
      | ((v, False), c') \<Rightarrow>
          (case fn s of
             ((v', Some err), s') \<Rightarrow> ((None, Some err), c', s', 1)
           | ((v', None), s') \<Rightarrow> ((v', None), Set c' key v' now_set, s', 1)))"

subsection \<open>Dispatcher\<close>

text \<open>The middleware fields of \<^verbatim>\<open>Client\<close>; a \<^verbatim>\<open>nil\<close> pointer is \<open>None\<close>.\<close>

record 'a Client =
  rateLimiter :: "RateLimiter option"
  retryer :: "Retryer option"
  cache :: "'a Cache option"

text \<open>
  \<^verbatim>\<open>executeWithMiddlewareResult\<close>. The result is \<open>None\<close> when \<^verbatim>\<open>Wait\<close> does not return;
  otherwise the returned pair, the client (with the limiter's new state), the state of
  \<^verbatim>\<open>fn\<close> and the number of its invocations.
\<close>

definition executeWithMiddlewareResult ::
  "'a Client \<Rightarrow> Context \<Rightarrow> ('s \<Rightarrow> ('r \<times> error option) \<times> 's) \<Rightarrow> 'r \<Rightarrow> wait_runtime \<Rightarrow> runtime \<Rightarrow> 's \<Rightarrow>
   (('r \<times> error option) \<times> 'a Client \<times> 's \<times> nat) option" where
  "executeWithMiddlewareResult c ctx fn zero wrt rt s =
     (case (case rateLimiter c of
              None \<Rightarrow> Some (None, c)
            | Some rl \<Rightarrow>
                (case Wait rl ctx wrt of
                   None \<Rightarrow> None
                 | Some (err, rl') \<Rightarrow> Some (err, c\<lparr>rateLimiter := Some rl'\<rparr>))) of
        None \<Rightarrow> None
      | Some (Some err, c') \<Rightarrow> Some ((zero, Some err), c', s, 0)
      | Some (None, c') \<Rightarrow>
          (case retryer c' of
             Some r \<Rightarrow> (let (res, s', n) = DoWithResult ctx r fn rt zero s in Some (res, c', s', n))
           | None \<Rightarrow> (let (res, s') = fn s in Some (res, c', s', 1))))"

text \<open>A call either returns or panics (a failed one-result type assertion).\<close>

datatype 'x outcome = Panic | Return 'x

text \<open>
  \<^verbatim>\<open>GetCategories\<close>. \<open>fn\<close> is the closure around the remote call, \<open>convertCategories\<close> the
  conversion of its response. The Go result \<^verbatim>\<open>(nil, err)\<close> is \<open>Inl err\<close>, the result
  \<^verbatim>\<open>(categories, nil)\<close> is \<open>Inr categories\<close>.
\<close>

definition GetCategories ::
  "'a Client \<Rightarrow> Context \<Rightarrow> ('s \<Rightarrow> ('r \<times> error option) \<times> 's) \<Rightarrow> ('r \<Rightarrow> 'a) \<Rightarrow> 'r \<Rightarrow>
   wait_runtime \<Rightarrow> runtime \<Rightarrow> int \<Rightarrow> int \<Rightarrow> 's \<Rightarrow>
   ((error + 'a) outcome \<times> 'a Client \<times> 's \<times> nat) option" where
  "GetCategories c ctx fn convertCategories zero wrt rt now_get now_set s =
     (case (case cache c of
              None \<Rightarrow> ((None, False), c)
            | Some ch \<Rightarrow>
                (let (res, ch') = Get ch ''categories'' now_get
                 in (res, c\<lparr>cache := Some ch'\<rparr>))) of
        ((cached, True), c1) \<Rightarrow>
          (case type_assert (Concrete T_CategorySlice) cached of
             None \<Rightarrow> Some (Panic, c1, s, 0)
           | Some (T', categories) \<Rightarrow> Some (Return (Inr categories), c1, s, 0))
      | ((cached, False), c1) \<Rightarrow>
          (case executeWithMiddlewareResult c1 ctx fn zero wrt rt s of
             None \<Rightarrow> None
           | Some ((result, Some err), c2, s', n) \<Rightarrow> Some (Return (Inl err), c2, s', n)
           | Some ((result, None), c2, s', n) \<Rightarrow>
               (let categories = convertCategories result;
                    c3 = (case cache c2 of
                            None \<Rightarrow> c2
                          | Some ch \<Rightarrow>
                              c2\<lparr>cache := Some (Set ch ''categories''
                                                  (Some (T_CategorySlice, categories)) now_set)\<rparr>)
                in Some (Return (Inr categories), c3, s', n))))"

subsection \<open>Notions used in the statements\<close>

text \<open>
  The state of a closure before its \<open>k\<close>-th invocation (counted from 0) when it starts in
  \<open>s\<close>, and the error that this invocation returns.
\<close>

definition nth_state :: "('s \<Rightarrow> 'x \<times> 's) \<Rightarrow> 's \<Rightarrow> nat \<Rightarrow> 's" where
  "nth_state fn s k = ((\<lambda>t. snd (fn t)) ^^ k) s"

definition nth_error :: "('s \<Rightarrow> error option \<times> 's) \<Rightarrow> 's \<Rightarrow> nat \<Rightarrow> error option" where
  "nth_error fn s k = fst (fn (nth_state fn s k))"

text \<open>
  How the retryer classifies an error: retryable unless a \<^verbatim>\<open>ShouldRetry\<close> predicate is set
  and rejects it.
\<close>

definition classified_retryable :: "Retryer \<Rightarrow> error \<Rightarrow> bool" where
  "classified_retryable r err =
     (case ShouldRetry (config r) of None \<Rightarrow> True | Some should \<Rightarrow> should err)"

text \<open>
  The number a finite \<^verbatim>\<open>float64\<close> stands for; the unclamped delay
  \<open>baseDelay * multiplier^n\<close> as the code computes it; and the jitter fraction that the code
  applies (none unless \<^verbatim>\<open>Jitter > 0\<close>).
\<close>

fun real_of_float64 :: "float64 \<Rightarrow> real" where
  "real_of_float64 (Finite a) = a"
| "real_of_float64 x = 0"

definition unclamped_delay :: "Retryer \<Rightarrow> int \<Rightarrow> float64" where
  "unclamped_delay r n =
     fmul (Finite (float64_of_int64 (BaseDelay (config r)))) (Pow (Multiplier (config r)) n)"

definition jitter_fraction :: "Retryer \<Rightarrow> real" where
  "jitter_fraction r =
     (if fgt (Jitter (config r)) (Finite 0) then real_of_float64 (Jitter (config r)) else 0)"


text \<open>Concrete inputs: the retry configuration that \<^verbatim>\<open>NewClient\<close> builds, and closures.\<close>

definition client_RetryConfig :: "int \<Rightarrow> int \<Rightarrow> RetryConfig" where
  "client_RetryConfig maxRetries retryBaseDelay =
     \<lparr>MaxRetries = maxRetries, BaseDelay = retryBaseDelay, MaxDelay = 30 * Second,
      Multiplier = Finite 2, Jitter = Finite 0.2,
      ShouldRetry = Some (\<lambda>err. IsRetryable (Some err))\<rparr>"

definition backoff_RetryConfig :: "int \<Rightarrow> (error \<Rightarrow> bool) option \<Rightarrow> real \<Rightarrow> RetryConfig" where
  "backoff_RetryConfig maxRetries should jitter =
     \<lparr>MaxRetries = maxRetries, BaseDelay = 100 * Millisecond, MaxDelay = Second,
      Multiplier = Finite 2, Jitter = Finite jitter, ShouldRetry = should\<rparr>"

definition always_fails :: "error \<Rightarrow> nat \<Rightarrow> error option \<times> nat" where
  "always_fails err n = (Some err, Suc n)"


definition fixed_runtime :: runtime where
  "fixed_runtime = \<lparr>rand_Float64 = (\<lambda>attempt. 1 / 2), select_pick = (\<lambda>attempt. False)\<rparr>"

definition fixed_wait_runtime :: "int \<Rightarrow> wait_runtime" where
  "fixed_wait_runtime now = \<lparr>wait_Now = (\<lambda>i. now), wait_pick = (\<lambda>i. False)\<rparr>"

definition drained_limiter :: RateLimiter where
  "drained_limiter = \<lparr>rate = 5, bucketSize = 5, tokens = 0, lastUpdate = 0\<rparr>"







text \<open>The \<^verbatim>\<open>Unwrap\<close> chain of an error: the error itself, what it wraps, and so on.\<close>

function chain :: "error \<Rightarrow> error list" where
  "chain err = err # (case Unwrap err of None \<Rightarrow> [] | Some e \<Rightarrow> chain e)"
  by pat_completeness auto
termination
  by (relation "measure size") (auto elim: Unwrap.elims)

text \<open>Concrete caches and compute functions.\<close>

definition empty_cache :: "int Cache" where
  "empty_cache = \<lparr>defaultTTL = 300 * Second, entries = Map.empty\<rparr>"

definition one_entry_cache :: "int Cache" where
  "one_entry_cache =
     \<lparr>defaultTTL = 300 * Second,
      entries = [''k'' \<mapsto> \<lparr>Value = Some (T_int, 1), Expiration = 5\<rparr>]\<rparr>"

definition compute_fails :: "nat \<Rightarrow> (int any \<times> error option) \<times> nat" where
  "compute_fails n = ((None, Some ErrTimeout), Suc n)"

definition compute_succeeds :: "nat \<Rightarrow> (int any \<times> error option) \<times> nat" where
  "compute_succeeds n = ((Some (T_int, 7), None), Suc n)"

text \<open>The dynamic type of an interface value; \<^verbatim>\<open>nil\<close> has none.\<close>

fun dynamic_type :: "'a any \<Rightarrow> go_type option" where
  "dynamic_type None = None"
| "dynamic_type (Some (T', x)) = Some (Concrete T')"

text \<open>A lookup misses when the key has no entry or an expired one.\<close>

definition cache_miss :: "'a Cache \<Rightarrow> string \<Rightarrow> int \<Rightarrow> bool" where
  "cache_miss c key now =
     (case entries c key of None \<Rightarrow> True | Some e \<Rightarrow> IsExpired e now)"

text \<open>
  For \<^verbatim>\<open>GetCategories\<close>: the lookup misses when there is no cache or the cache misses; the
  client after a lookup that missed (an expired entry is gone); and the client after the
  converted result has been stored.
\<close>

definition lookup_miss :: "'a Client \<Rightarrow> int \<Rightarrow> bool" where
  "lookup_miss c now =
     (case cache c of None \<Rightarrow> True | Some ch \<Rightarrow> cache_miss ch ''categories'' now)"

definition after_lookup :: "'a Client \<Rightarrow> 'a Client" where
  "after_lookup c =
     (case cache c of None \<Rightarrow> c | Some ch \<Rightarrow> c\<lparr>cache := Some (Delete ch ''categories'')\<rparr>)"

definition store_categories :: "'a Client \<Rightarrow> 'a \<Rightarrow> int \<Rightarrow> 'a Client" where
  "store_categories c categories now =
     (case cache c of
        None \<Rightarrow> c
      | Some ch \<Rightarrow>
          c\<lparr>cache := Some (Set ch ''categories'' (Some (T_CategorySlice, categories)) now)\<rparr>)"

text \<open>Concrete clients and a remote call that succeeds.\<close>

definition categories_cache :: "int Cache" where
  "categories_cache =
     \<lparr>defaultTTL = 300 * Second,
      entries = [''categories'' \<mapsto> \<lparr>Value = Some (T_CategorySlice, 11), Expiration = 5\<rparr>]\<rparr>"

definition mistyped_cache :: "int Cache" where
  "mistyped_cache =
     \<lparr>defaultTTL = 300 * Second,
      entries = [''categories'' \<mapsto> \<lparr>Value = Some (T_int, 1), Expiration = 5\<rparr>]\<rparr>"

definition client_of ::
  "RateLimiter option \<Rightarrow> Retryer option \<Rightarrow> int Cache option \<Rightarrow> int Client" where
  "client_of rl r ch = \<lparr>rateLimiter = rl, retryer = r, cache = ch\<rparr>"

definition client_Retryer :: Retryer where
  "client_Retryer = NewRetryer (client_RetryConfig 3 Second)"

definition remote_call :: "nat \<Rightarrow> (int \<times> error option) \<times> nat" where
  "remote_call n = ((10, None), Suc n)"

definition remote_call_rejected :: "nat \<Rightarrow> (int \<times> error option) \<times> nat" where
  "remote_call_rejected n = ((0, Some (SOAPFault ''Client'' ''bad request'' '''')), Suc n)"

section \<open>Properties\<close>

text \<open>
  The recursive equations of the loops are applied on demand, not by default.
\<close>

declare errors_Is.simps [simp del] errors_As.simps [simp del] chain.simps [simp del]
declare Do_loop.simps [simp del] DoWithResult_loop.simps [simp del]
declare excess_bits.simps [simp del]

lemmas errors_eval = errors_Is.simps errors_As.simps chain.simps

subsection \<open>Conversions between \<^verbatim>\<open>int64\<close> and \<^verbatim>\<open>float64\<close>\<close>

lemma excess_bits_small: "a < 2 ^ 53 \<Longrightarrow> excess_bits a = 0"
  by (subst excess_bits.simps) simp

lemma float64_of_int64_exact:
  assumes "\<bar>x\<bar> \<le> 2 ^ 53"
  shows "float64_of_int64 x = real_of_int x"
proof (cases "\<bar>x\<bar> < 2 ^ 53")
  case True
  then have "nat \<bar>x\<bar> < 2 ^ 53" by simp
  then have "excess_bits (nat \<bar>x\<bar>) = 0" by (rule excess_bits_small)
  then have "float64_of_int64 x = real_of_int (sgn x) * real (nat \<bar>x\<bar>)"
    by (simp add: float64_of_int64_def Let_def)
  also have "\<dots> = real_of_int (sgn x * \<bar>x\<bar>)" by simp
  also have "\<dots> = real_of_int x" by (simp add: mult_sgn_abs)
  finally show ?thesis .
next
  case False
  with assms have ax: "\<bar>x\<bar> = 2 ^ 53" by simp
  then have n: "nat \<bar>x\<bar> = 2 ^ 53" by simp
  have "excess_bits 4503599627370496 = 0"
    by (rule excess_bits_small) simp
  then have e: "excess_bits 9007199254740992 = Suc 0"
    by (subst excess_bits.simps) simp
  have "float64_of_int64 x = real_of_int (sgn x) * real (nat \<bar>x\<bar>)"
    unfolding float64_of_int64_def Let_def n by (simp add: e)
  also have "\<dots> = real_of_int (sgn x * \<bar>x\<bar>)" by simp
  also have "\<dots> = real_of_int x" by (simp add: mult_sgn_abs)
  finally show ?thesis .
qed

lemma float64_of_int64_nonneg: "0 \<le> x \<Longrightarrow> 0 \<le> float64_of_int64 x"
  by (simp add: float64_of_int64_def Let_def sgn_if)

lemma MaxFloat64_large: "2 ^ 63 \<le> MaxFloat64"
  by (simp add: MaxFloat64_def)

lemma overflow_Finite: "\<bar>x\<bar> \<le> MaxFloat64 \<Longrightarrow> overflow x = Finite x"
  by (auto simp: overflow_def)

lemma overflow_nonneg: "0 \<le> x \<Longrightarrow> overflow x = (if x > MaxFloat64 then PosInf else Finite x)"
  using MaxFloat64_large by (auto simp: overflow_def)

lemma overflow_eq_Finite: "overflow x = Finite d \<Longrightarrow> d = x \<and> \<bar>x\<bar> \<le> MaxFloat64"
  by (auto simp: overflow_def split: if_splits)


subsection \<open>Backoff delay\<close>

lemma config_NewRetryer:
  "config (NewRetryer cfg) =
     cfg\<lparr>MaxRetries := (if MaxRetries cfg \<le> 0 then 3 else MaxRetries cfg),
         BaseDelay := (if BaseDelay cfg \<le> 0 then Second else BaseDelay cfg),
         MaxDelay := (if MaxDelay cfg \<le> 0 then 30 * Second else MaxDelay cfg),
         Multiplier := (if fle (Multiplier cfg) (Finite 0) then Finite 2 else Multiplier cfg),
         Jitter := (if flt (Jitter cfg) (Finite 0) then Finite 0
                    else if fgt (Jitter cfg) (Finite 1) then Finite 1 else Jitter cfg)\<rparr>"
  by (simp add: NewRetryer_def Let_def fgt_def)

lemma NewRetryer_ranges:
  "0 < MaxRetries (config (NewRetryer cfg))"
  "0 < BaseDelay (config (NewRetryer cfg))"
  "0 < MaxDelay (config (NewRetryer cfg))"
  by (simp_all add: config_NewRetryer Second_def)

lemma NewRetryer_Multiplier:
  "(\<exists>m. Multiplier (config (NewRetryer cfg)) = Finite m \<and> 0 < m)
   \<or> Multiplier (config (NewRetryer cfg)) = PosInf
   \<or> Multiplier (config (NewRetryer cfg)) = NaN"
  by (cases "Multiplier cfg") (auto simp: config_NewRetryer fle_def)

lemma NewRetryer_Jitter:
  "(\<exists>j. Jitter (config (NewRetryer cfg)) = Finite j \<and> 0 \<le> j \<and> j \<le> 1)
   \<or> Jitter (config (NewRetryer cfg)) = NaN"
  by (cases "Jitter cfg") (auto simp: config_NewRetryer fgt_def)


lemma Pow_nonneg:
  assumes "(\<exists>m. x = Finite m \<and> 0 < m) \<or> x = PosInf \<or> x = NaN"
    and "Pow x n = Finite p"
  shows "0 \<le> p"
  using assms by (auto simp: overflow_def split: if_splits)

lemma unclamped_delay_nonneg:
  assumes "unclamped_delay (NewRetryer cfg) n = Finite d"
  shows "0 \<le> d" "d \<le> MaxFloat64"
proof -
  let ?c = "config (NewRetryer cfg)"
  let ?b = "float64_of_int64 (BaseDelay ?c)"
  have b: "0 \<le> ?b"
    using NewRetryer_ranges(2) [of cfg] by (intro float64_of_int64_nonneg) simp
  from assms have f: "fmul (Finite ?b) (Pow (Multiplier ?c) n) = Finite d"
    by (simp add: unclamped_delay_def)
  then obtain p where p: "Pow (Multiplier ?c) n = Finite p" and o: "overflow (?b * p) = Finite d"
    by (cases "Pow (Multiplier ?c) n") (auto simp: signed_inf_def split: if_splits)
  have "0 \<le> p" by (rule Pow_nonneg [OF NewRetryer_Multiplier p])
  with b overflow_eq_Finite [OF o] show "0 \<le> d" "d \<le> MaxFloat64" by auto
qed

text \<open>The jittered value before the cap, for a finite unclamped delay.\<close>

lemma jittered_value:
  assumes "unclamped_delay (NewRetryer cfg) n = Finite d" and "0 \<le> u" and "u < 1"
  shows "(if fgt (Jitter (config (NewRetryer cfg))) (Finite 0)
          then (let jitterRange = fmul (Finite d) (Jitter (config (NewRetryer cfg)))
                in fadd (fsub (Finite d) jitterRange)
                        (fmul (fmul (Finite u) (Finite 2)) jitterRange))
          else Finite d)
         = overflow (d * (1 + (2 * u - 1) * jitter_fraction (NewRetryer cfg)))"
proof -
  let ?c = "config (NewRetryer cfg)"
  note d = unclamped_delay_nonneg [OF assms(1)]
  show ?thesis
  proof (cases "fgt (Jitter ?c) (Finite 0)")
    case False
    then show ?thesis using d by (simp add: jitter_fraction_def overflow_Finite)
  next
    case True
    with NewRetryer_Jitter [of cfg] obtain j where
      j: "Jitter ?c = Finite j" "0 < j" "j \<le> 1"
      by (auto simp: fgt_def)
    have jf: "jitter_fraction (NewRetryer cfg) = j"
      using True j by (simp add: jitter_fraction_def)
    have dj: "0 \<le> d * j" "d * j \<le> d"
      using d(1) j by (simp_all add: mult_left_le)
    have jr: "fmul (Finite d) (Finite j) = Finite (d * j)"
      using dj d by (simp add: overflow_Finite)
    have sub: "fsub (Finite d) (Finite (d * j)) = Finite (d - d * j)"
      using dj d by (simp add: fsub_def overflow_Finite)
    have two: "fmul (Finite u) (Finite 2) = Finite (u * 2)"
    proof -
      have "\<bar>u * 2\<bar> \<le> 2 ^ 63" using assms(2,3) by simp
      then have "\<bar>u * 2\<bar> \<le> MaxFloat64" using MaxFloat64_large by linarith
      then show ?thesis by (simp add: overflow_Finite)
    qed
    have w: "fmul (Finite (u * 2)) (Finite (d * j)) = overflow (u * 2 * (d * j))"
      by simp
    have w0: "0 \<le> u * 2 * (d * j)" using assms(2) dj by simp
    have t0: "0 \<le> d - d * j" using dj by simp
    have sum: "fadd (Finite (d - d * j)) (overflow (u * 2 * (d * j)))
                 = overflow (d - d * j + u * 2 * (d * j))"
    proof (cases "u * 2 * (d * j) > MaxFloat64")
      case True
      then have "d - d * j + u * 2 * (d * j) > MaxFloat64" using t0 by linarith
      then show ?thesis using True w0 by (simp add: overflow_def)
    next
      case False
      then show ?thesis using w0 by (simp add: overflow_nonneg)
    qed
    have alg: "d - d * j + u * 2 * (d * j) = d * (1 + (2 * u - 1) * j)"
      by (simp add: algebra_simps)
    have "fadd (fsub (Finite d) (fmul (Finite d) (Finite j)))
               (fmul (fmul (Finite u) (Finite 2)) (fmul (Finite d) (Finite j)))
            = overflow (d * (1 + (2 * u - 1) * j))"
      by (simp only: jr sub two w sum alg)
    then show ?thesis
      using True by (simp only: j jf Let_def if_True)
  qed
qed



text \<open>
  C9. With \<^verbatim>\<open>BaseDelay\<close> 100ms, \<^verbatim>\<open>Multiplier\<close> 2, \<^verbatim>\<open>MaxDelay\<close> 1s and \<^verbatim>\<open>Jitter\<close> 0, the delays
  of attempts 0 to 4 are exactly 100ms, 200ms, 400ms, 800ms and 1000ms, whatever the
  other fields of the configuration and the random draw are; the 1600ms of attempt 4 are
  capped at \<^verbatim>\<open>MaxDelay\<close>. All numbers involved are integers below \<open>2^53\<close>, which \<^verbatim>\<open>float64\<close>
  represents exactly.
\<close>

theorem calculateDelay_backoff_growth:
  "calculateDelay (NewRetryer (backoff_RetryConfig mr sr 0)) 0 u = 100 * Millisecond \<and>
   calculateDelay (NewRetryer (backoff_RetryConfig mr sr 0)) 1 u = 200 * Millisecond \<and>
   calculateDelay (NewRetryer (backoff_RetryConfig mr sr 0)) 2 u = 400 * Millisecond \<and>
   calculateDelay (NewRetryer (backoff_RetryConfig mr sr 0)) 3 u = 800 * Millisecond \<and>
   calculateDelay (NewRetryer (backoff_RetryConfig mr sr 0)) 4 u = 1000 * Millisecond \<and>
   real_of_int (100 * Millisecond) * 2 powi 4 = real_of_int (1600 * Millisecond) \<and>
   MaxDelay (config (NewRetryer (backoff_RetryConfig mr sr 0))) = 1000 * Millisecond"
  by (simp add: calculateDelay_def config_NewRetryer backoff_RetryConfig_def
      Millisecond_def Second_def Duration_def MinInt64_def Let_def fle_def fgt_def
      float64_of_int64_exact overflow_def MaxFloat64_def)


text \<open>
  Outside the finite range the computation leaves the range of \<^verbatim>\<open>int64\<close>. With the
  configuration of \<^verbatim>\<open>NewClient\<close>, attempt 995 overflows to an infinity, the jitter turns it
  into NaN, and the conversion gives the smallest \<^verbatim>\<open>int64\<close>. With the largest \<^verbatim>\<open>int64\<close> as
  \<^verbatim>\<open>MaxDelay\<close>, whose \<^verbatim>\<open>float64\<close> is \<open>2^63\<close>, a capped delay converts to the smallest \<^verbatim>\<open>int64\<close>
  as well.
\<close>

lemma calculateDelay_overflow:
  "calculateDelay (NewRetryer (client_RetryConfig 3 Second)) 995 u = MinInt64"
proof -
  have "unclamped_delay (NewRetryer (client_RetryConfig 3 Second)) 995 = PosInf"
    by (simp add: unclamped_delay_def config_NewRetryer client_RetryConfig_def fle_def
        float64_of_int64_exact overflow_def Second_def MaxFloat64_def)
  then show ?thesis
    by (simp add: calculateDelay_def unclamped_delay_def Let_def config_NewRetryer
        client_RetryConfig_def fle_def fgt_def fsub_def signed_inf_def)
qed


lemma unclamped_delay_value:
  assumes "Multiplier (config r) = Finite m" and "0 < m"
    and "0 < BaseDelay (config r)" and "BaseDelay (config r) \<le> 2 ^ 53"
    and "real_of_int (BaseDelay (config r)) * m powi n \<le> MaxFloat64"
  shows "unclamped_delay r n = Finite (real_of_int (BaseDelay (config r)) * m powi n)"
proof -
  let ?b = "real_of_int (BaseDelay (config r))"
  have b: "float64_of_int64 (BaseDelay (config r)) = ?b"
    using assms(3,4) by (intro float64_of_int64_exact) simp
  have p0: "0 < m powi n" using assms(2) by simp
  have b1: "1 \<le> ?b" using assms(3) by simp
  have "m powi n \<le> ?b * m powi n"
    using b1 p0 by (simp add: mult_le_cancel_right1)
  then have pmax: "m powi n \<le> MaxFloat64" using assms(5) by linarith
  have pow: "Pow (Finite m) n = Finite (m powi n)"
    using assms(2) p0 pmax by (simp add: overflow_Finite)
  have "0 \<le> ?b * m powi n" using b1 p0 by simp
  then have "overflow (?b * m powi n) = Finite (?b * m powi n)"
    using assms(5) by (simp add: overflow_Finite)
  then show ?thesis
    unfolding unclamped_delay_def assms(1) b pow by simp
qed

lemma calculateDelay_MaxInt64:
  assumes "0 \<le> u" and "u < 1"
  shows "calculateDelay
     (NewRetryer ((client_RetryConfig 3 Second)\<lparr>MaxDelay := 2 ^ 63 - 1\<rparr>)) 34 u = MinInt64"
proof -
  define cfg where "cfg = (client_RetryConfig 3 Second)\<lparr>MaxDelay := 2 ^ 63 - 1\<rparr>"
  let ?c = "config (NewRetryer cfg)"
  have c: "Multiplier ?c = Finite 2" "Jitter ?c = Finite (1 / 5)"
    "BaseDelay ?c = 1000000000" "MaxDelay ?c = 9223372036854775807"
    by (simp_all add: cfg_def config_NewRetryer client_RetryConfig_def fle_def fgt_def
        Second_def)
  have e: "excess_bits 9223372036854775807 = 10"
    by (simp add: excess_bits.simps)
  have M: "float64_of_int64 (MaxDelay ?c) = 9223372036854775808"
    by (simp add: c float64_of_int64_def Let_def e)
  have ud: "unclamped_delay (NewRetryer cfg) 34 = Finite 17179869184000000000"
    using unclamped_delay_value [of "NewRetryer cfg" 2 34]
    by (simp add: c MaxFloat64_def)
  have jf: "jitter_fraction (NewRetryer cfg) = 1 / 5"
    by (simp add: jitter_fraction_def c fgt_def)
  let ?y = "17179869184000000000 * (1 + (2 * u - 1) * (1 / 5))"
  have jv: "(if fgt (Jitter ?c) (Finite 0)
             then fadd (fsub (Finite 17179869184000000000)
                             (fmul (Finite 17179869184000000000) (Jitter ?c)))
                       (fmul (fmul (Finite u) (Finite 2))
                             (fmul (Finite 17179869184000000000) (Jitter ?c)))
             else Finite 17179869184000000000) = overflow ?y"
    using jittered_value [OF ud assms] by (simp only: Let_def jf)
  have "?y = 13743895347200000000 + 6871947673600000000 * u"
    by (simp add: algebra_simps)
  then have big: "9223372036854775808 < ?y" using assms(1) by linarith
  then have "0 \<le> ?y" by linarith
  then have cap: "(if fgt (overflow ?y) (Finite 9223372036854775808)
               then Finite 9223372036854775808 else overflow ?y)
               = Finite 9223372036854775808"
    using big by (simp add: overflow_nonneg fgt_def)
  have delay0: "fmul (Finite (float64_of_int64 (BaseDelay ?c))) (Pow (Multiplier ?c) 34)
                  = Finite 17179869184000000000"
    using ud by (simp only: unclamped_delay_def)
  have "calculateDelay (NewRetryer cfg) 34 u = Duration 9223372036854775808"
    unfolding calculateDelay_def Let_def delay0 M jv cap by simp
  then show ?thesis
    by (simp add: cfg_def Duration_def MinInt64_def)
qed



subsection \<open>Retry loop\<close>

lemma nth_state_shift: "nth_state fn (snd (fn s)) k = nth_state fn s (Suc k)"
  unfolding nth_state_def by (induction k) simp_all

lemma nth_state_1: "nth_state fn s (Suc 0) = snd (fn s)"
  by (simp add: nth_state_def)

lemma nth_error_shift: "nth_error fn (snd (fn s)) k = nth_error fn s (Suc k)"
  by (simp only: nth_error_def nth_state_shift)

lemma not_retryable_iff:
  "(ShouldRetry (config r) \<noteq> None \<and> \<not> the (ShouldRetry (config r)) err)
     = (\<not> classified_retryable r err)"
  by (cases "ShouldRetry (config r)") (simp_all add: classified_retryable_def)

lemma Do_loop_step:
  assumes "attempt \<le> MaxRetries (config r)" and "fn s = (res, s')"
  shows "Do_loop r ctx fn rt attempt lastErr s calls =
     (case res of
        None \<Rightarrow> (None, s', Suc calls)
      | Some err \<Rightarrow>
          if \<not> classified_retryable r err then (Some err, s', Suc calls)
          else if attempt = MaxRetries (config r) then (Some err, s', Suc calls)
          else (case select_Done_After ctx
                       (calculateDelay r attempt (rand_Float64 rt attempt))
                       (select_pick rt attempt) of
                  CtxDone \<Rightarrow> (ctx_Err ctx, s', Suc calls)
                | TimerFired \<Rightarrow> Do_loop r ctx fn rt (attempt + 1) (Some err) s' (Suc calls)))"
proof (cases res)
  case None
  then show ?thesis using assms by (subst Do_loop.simps) simp
next
  case (Some err)
  show ?thesis
    using assms Some not_retryable_iff [of r err]
    by (subst Do_loop.simps) (simp del: not_None_eq)
qed

lemma first_invocation:
  assumes "nth_error fn s 0 = Some e"
  shows "fn s = (Some e, nth_state fn s 1)"
  using assms by (simp add: nth_error_def nth_state_def prod_eq_iff)

lemma Do_loop_exhaust:
  assumes "\<forall>k. \<exists>e. nth_error fn s k = Some e \<and> classified_retryable r e"
    and "attempt \<le> MaxRetries (config r)"
    and "n = nat (MaxRetries (config r) - attempt)"
  shows "Do_loop r Uncancelled fn rt attempt lastErr s calls
           = (nth_error fn s n, nth_state fn s (Suc n), calls + Suc n)"
  using assms
proof (induction n arbitrary: attempt lastErr s calls)
  case 0
  then have last: "attempt = MaxRetries (config r)" by simp
  from "0.prems"(1) obtain e where e: "nth_error fn s 0 = Some e" "classified_retryable r e"
    by blast
  show ?case
    using Do_loop_step [where fn = fn and s = s, OF "0.prems"(2) first_invocation [OF e(1)]] e last by simp
next
  case (Suc n)
  then have more: "attempt < MaxRetries (config r)" by simp
  from Suc.prems(1) obtain e where e: "nth_error fn s 0 = Some e" "classified_retryable r e"
    by blast
  let ?s' = "nth_state fn s 1"
  have s': "?s' = snd (fn s)" by (simp add: nth_state_def)
  have shifted: "\<forall>k. \<exists>e. nth_error fn ?s' k = Some e \<and> classified_retryable r e"
    using Suc.prems(1) by (simp only: s' nth_error_shift) blast
  have n: "n = nat (MaxRetries (config r) - (attempt + 1))"
    using Suc.prems(3) by simp
  have le: "attempt + 1 \<le> MaxRetries (config r)" using more by simp
  have IH: "Do_loop r Uncancelled fn rt (attempt + 1) (Some e) ?s' (Suc calls)
              = (nth_error fn ?s' n, nth_state fn ?s' (Suc n), Suc calls + Suc n)"
    by (rule Suc.IH [OF shifted le n])
  have step: "Do_loop r Uncancelled fn rt attempt lastErr s calls
                = Do_loop r Uncancelled fn rt (attempt + 1) (Some e) ?s' (Suc calls)"
    using Do_loop_step [where fn = fn and s = s, OF Suc.prems(2) first_invocation [OF e(1)]] e more by simp
  show ?case
    by (simp only: step IH) (simp add: nth_state_1 nth_error_shift nth_state_shift)
qed

text \<open>
  C3. \<^verbatim>\<open>Do\<close> on a retryer built by \<^verbatim>\<open>NewRetryer\<close>, with a context that is not cancelled.
  If every invocation fails with an error classified non-retryable, the operation is
  invoked exactly once and the result is the error of that invocation. If every
  invocation fails with a retryable error, the operation is invoked exactly
  \<^verbatim>\<open>MaxRetries + 1\<close> times and the result is the error of the last invocation.
\<close>

theorem Do_invocation_count:
  "((\<forall>k. \<exists>e. nth_error fn s k = Some e \<and> \<not> classified_retryable (NewRetryer cfg) e)
     \<longrightarrow> Do (NewRetryer cfg) Uncancelled fn rt s = (nth_error fn s 0, nth_state fn s 1, 1))
   \<and>
   ((\<forall>k. \<exists>e. nth_error fn s k = Some e \<and> classified_retryable (NewRetryer cfg) e)
     \<longrightarrow> Do (NewRetryer cfg) Uncancelled fn rt s
           = (nth_error fn s (nat (MaxRetries (config (NewRetryer cfg)))),
              nth_state fn s (nat (MaxRetries (config (NewRetryer cfg))) + 1),
              nat (MaxRetries (config (NewRetryer cfg))) + 1))"
proof (intro conjI impI)
  let ?r = "NewRetryer cfg"
  have pos: "0 \<le> MaxRetries (config ?r)"
    using NewRetryer_ranges(1) [of cfg] by simp
  {
    assume a: "\<forall>k. \<exists>e. nth_error fn s k = Some e \<and> \<not> classified_retryable ?r e"
    then obtain e where e: "nth_error fn s 0 = Some e" "\<not> classified_retryable ?r e"
      by blast
    show "Do ?r Uncancelled fn rt s = (nth_error fn s 0, nth_state fn s 1, 1)"
      unfolding Do_def
      using Do_loop_step [where fn = fn and s = s, OF pos first_invocation [OF e(1)]] e
      by simp
  }
  {
    assume a: "\<forall>k. \<exists>e. nth_error fn s k = Some e \<and> classified_retryable ?r e"
    show "Do ?r Uncancelled fn rt s
           = (nth_error fn s (nat (MaxRetries (config ?r))),
              nth_state fn s (nat (MaxRetries (config ?r)) + 1),
              nat (MaxRetries (config ?r)) + 1)"
      unfolding Do_def
      using Do_loop_exhaust [OF a pos, of "nat (MaxRetries (config ?r))" rt None 0]
      by simp
  }
qed

lemma nth_state_always_fails: "nth_state (always_fails err) s k = s + k"
  by (induction k) (simp_all add: nth_state_def always_fails_def)

lemma nth_error_always_fails: "nth_error (always_fails err) s k = Some err"
  by (simp add: nth_error_def always_fails_def)

lemma MaxRetries_client: "MaxRetries (config (NewRetryer (client_RetryConfig 3 Second))) = 3"
  by (simp add: config_NewRetryer client_RetryConfig_def)

lemma classified_client:
  "classified_retryable (NewRetryer (client_RetryConfig 3 Second)) err = IsRetryable (Some err)"
  by (simp add: classified_retryable_def config_NewRetryer client_RetryConfig_def)

theorem Do_invocation_count_witness:
  "(\<forall>k. \<exists>e. nth_error (always_fails (SOAPFault ''Client'' ''bad request'' '''')) 0 k = Some e
            \<and> \<not> classified_retryable (NewRetryer (client_RetryConfig 3 Second)) e)
   \<and> Do (NewRetryer (client_RetryConfig 3 Second)) Uncancelled
      (always_fails (SOAPFault ''Client'' ''bad request'' '''')) fixed_runtime 0
     = (Some (SOAPFault ''Client'' ''bad request'' ''''), 1, 1)
   \<and> (\<forall>k. \<exists>e. nth_error (always_fails (NetworkError ''dial'' None)) 0 k = Some e
            \<and> classified_retryable (NewRetryer (client_RetryConfig 3 Second)) e)
   \<and> Do (NewRetryer (client_RetryConfig 3 Second)) Uncancelled
      (always_fails (NetworkError ''dial'' None)) fixed_runtime 0
     = (Some (NetworkError ''dial'' None), 4, 4)"
  using Do_invocation_count [of "always_fails (SOAPFault ''Client'' ''bad request'' '''')" 0
           "client_RetryConfig 3 Second" fixed_runtime]
        Do_invocation_count [of "always_fails (NetworkError ''dial'' None)" 0
           "client_RetryConfig 3 Second" fixed_runtime]
  by (simp add: nth_error_always_fails nth_state_always_fails MaxRetries_client
      classified_client IsRetryable_def errors_eval)

subsection \<open>A context cancelled before the call\<close>

lemma Wait_first_iteration:
  assumes "TryAcquire (wait_Now wrt 0) r = (acquired, r1)"
  shows "Wait r ctx wrt =
     (if acquired then Some (None, r1)
      else (case select_Done_After ctx (timeUntilNextToken r1) (wait_pick wrt 0) of
              CtxDone \<Rightarrow> Some (ctx_Err ctx, r1)
            | TimerFired \<Rightarrow> Wait_loop r1 ctx wrt (Suc 0)))"
  unfolding Wait_def using assms by (subst Wait_loop.simps) simp






subsection \<open>Token bucket\<close>
















subsection \<open>Cache\<close>

lemma Delete_absent: "entries c key = None \<Longrightarrow> Delete c key = c"
proof -
  assume "entries c key = None"
  then have "(entries c)(key := None) = entries c" by (simp add: fun_upd_idem)
  then show ?thesis by (simp add: Delete_def)
qed

lemma Get_cases:
  "Get c key now =
     (case entries c key of
        None \<Rightarrow> ((None, False), c)
      | Some e \<Rightarrow> if now \<le> Expiration e then ((Value e, True), c)
                  else ((None, False), Delete c key))"
  by (simp add: Get_def IsExpired_def split: option.splits)

text \<open>
  C7. \<^verbatim>\<open>Get\<close> reports found exactly when the key has an entry whose expiration has not
  passed, and then returns the stored value and leaves the cache as it is. If the entry
  has expired, \<^verbatim>\<open>Get\<close> deletes it and returns \<^verbatim>\<open>(nil, false)\<close>; if there is none, it
  returns \<^verbatim>\<open>(nil, false)\<close>. Hence a value stored at \<open>t0\<close> with a TTL is returned up to
  \<open>t0 + ttl\<close> and is not found, and no longer in the map, after that.
\<close>

theorem Get_found_iff_fresh:
  "(snd (fst (Get c key now)) \<longleftrightarrow> (\<exists>e. entries c key = Some e \<and> \<not> Expiration e < now))
   \<and> (entries c key = Some e \<and> \<not> Expiration e < now
        \<longrightarrow> Get c key now = ((Value e, True), c))
   \<and> (entries c key = Some e \<and> Expiration e < now
        \<longrightarrow> Get c key now = ((None, False), c\<lparr>entries := (entries c)(key := None)\<rparr>))
   \<and> (entries c key = None \<longrightarrow> Get c key now = ((None, False), c))
   \<and> (now \<le> t0 + ttl
        \<longrightarrow> Get (SetWithTTL c key v ttl t0) key now = ((v, True), SetWithTTL c key v ttl t0))
   \<and> (t0 + ttl < now
        \<longrightarrow> fst (Get (SetWithTTL c key v ttl t0) key now) = (None, False)
            \<and> entries (snd (Get (SetWithTTL c key v ttl t0) key now)) key = None)"
  by (auto simp: Get_cases Delete_def SetWithTTL_def split: option.splits)

theorem Get_found_iff_fresh_witness:
  "Get (SetWithTTL empty_cache ''k'' (Some (T_int, 42)) (50 * Millisecond) 0) ''k'' 0
     = ((Some (T_int, 42), True), SetWithTTL empty_cache ''k'' (Some (T_int, 42)) (50 * Millisecond) 0)
   \<and> Get (SetWithTTL empty_cache ''k'' (Some (T_int, 42)) (50 * Millisecond) 0) ''k'' (60 * Millisecond)
     = ((None, False), empty_cache)
   \<and> Get empty_cache ''k'' 0 = ((None, False), empty_cache)"
proof -
  let ?c = "SetWithTTL empty_cache ''k'' (Some (T_int, 42)) (50 * Millisecond) 0"
  let ?e = "\<lparr>Value = Some (T_int, 42::int), Expiration = 50 * Millisecond\<rparr>"
  have e: "entries ?c ''k'' = Some ?e"
    by (simp add: SetWithTTL_def)
  have del: "?c\<lparr>entries := (entries ?c)(''k'' := None)\<rparr> = empty_cache"
    by (simp add: SetWithTTL_def empty_cache_def)
  have fresh: "\<not> Expiration ?e < 0" and stale: "Expiration ?e < 60 * Millisecond"
    by (simp_all add: Millisecond_def)
  have absent: "entries empty_cache ''k'' = None"
    by (simp add: empty_cache_def)
  show ?thesis
    using e del fresh stale absent
      Get_found_iff_fresh [of ?c "''k''" 0 ?e]
      Get_found_iff_fresh [of ?c "''k''" "60 * Millisecond" ?e]
      Get_found_iff_fresh [of empty_cache "''k''" 0]
    by simp
qed

text \<open>
  C10, as stated, fails. The type parameter of \<^verbatim>\<open>GetTyped\<close> may be an interface type. For
  \<^verbatim>\<open>T = any\<close> a stored \<^verbatim>\<open>int\<close> does not have the dynamic type \<open>T\<close>, no value has, and yet
  the assertion holds: \<^verbatim>\<open>GetTyped[any]\<close> returns the value and \<^verbatim>\<open>true\<close>.
\<close>

theorem GetTyped_interface_counterexample:
  "entries one_entry_cache ''k'' = Some \<lparr>Value = Some (T_int, 1), Expiration = 5\<rparr>
   \<and> \<not> IsExpired \<lparr>Value = Some (T_int, 1::int), Expiration = 5\<rparr> 3
   \<and> dynamic_type (Some (T_int, 1::int)) \<noteq> Some (Interface [])
   \<and> GetTyped (Interface []) None one_entry_cache ''k'' 3
        = ((Some (T_int, 1), True), one_entry_cache)"
  by (simp add: GetTyped_def Get_def IsExpired_def one_entry_cache_def)

text \<open>
  C10, amended. Let the key have a fresh entry. \<^verbatim>\<open>GetTyped[T]\<close> returns the zero value
  and \<^verbatim>\<open>false\<close> when the stored value is \<^verbatim>\<open>nil\<close>, when \<open>T\<close> is a concrete type other than the
  value's dynamic type, and when \<open>T\<close> is an interface type that the dynamic type does not
  implement; this is also what it returns when the key is absent. When \<open>T\<close> is an
  interface type that the dynamic type implements, as \<^verbatim>\<open>any\<close> always is, it returns the
  value and \<^verbatim>\<open>true\<close>. In every case the entry stays in the cache.
\<close>

theorem GetTyped_type_mismatch:
  assumes "entries c key = Some e" and "\<not> IsExpired e now"
  shows "(Value e = None \<longrightarrow> GetTyped T zero c key now = ((zero, False), c))
       \<and> (Value e = Some (T', x) \<and> T' \<noteq> ct
            \<longrightarrow> GetTyped (Concrete ct) zero c key now = ((zero, False), c))
       \<and> (Value e = Some (T', x) \<and> \<not> set ms \<subseteq> set (method_set T')
            \<longrightarrow> GetTyped (Interface ms) zero c key now = ((zero, False), c))
       \<and> (Value e = Some (T', x) \<and> set ms \<subseteq> set (method_set T')
            \<longrightarrow> GetTyped (Interface ms) zero c key now = ((Some (T', x), True), c))
       \<and> (Value e = Some (T', x)
            \<longrightarrow> GetTyped (Interface []) zero c key now = ((Some (T', x), True), c))
       \<and> fst (GetTyped T zero (Delete c key) key now) = (zero, False)
       \<and> entries (snd (GetTyped T zero c key now)) key = Some e"
proof -
  have get: "Get c key now = ((Value e, True), c)"
    using assms by (simp add: Get_def)
  have unchanged: "snd (GetTyped T zero c key now) = c"
    by (simp add: GetTyped_def get split: option.split)
  have "Get (Delete c key) key now = ((None, False), Delete c key)"
    by (simp add: Get_def Delete_def)
  then have absent: "fst (GetTyped T zero (Delete c key) key now) = (zero, False)"
    by (simp add: GetTyped_def)
  show ?thesis
    using absent unchanged assms(1) by (simp add: GetTyped_def get)
qed

theorem GetTyped_type_mismatch_witness:
  "GetTyped (Concrete T_string) (Some (T_string, 0)) one_entry_cache ''k'' 3
     = ((Some (T_string, 0), False), one_entry_cache)
   \<and> GetTyped (Interface [''Error'']) None one_entry_cache ''k'' 3
     = ((None, False), one_entry_cache)
   \<and> GetTyped (Interface []) None one_entry_cache ''k'' 3
     = ((Some (T_int, 1), True), one_entry_cache)
   \<and> GetTyped (Concrete T_int) (Some (T_int, 0))
        (SetWithTTL one_entry_cache ''k'' None 10 0) ''k'' 3
     = ((Some (T_int, 0), False), SetWithTTL one_entry_cache ''k'' None 10 0)
   \<and> GetTyped (Concrete T_string) (Some (T_string, 0)) (Delete one_entry_cache ''k'') ''k'' 3
     = ((Some (T_string, 0), False), Delete one_entry_cache ''k'')"
proof -
  let ?e = "\<lparr>Value = Some (T_int, 1::int), Expiration = 5\<rparr>"
  let ?n = "\<lparr>Value = None :: int any, Expiration = 10\<rparr>"
  let ?c = "SetWithTTL one_entry_cache ''k'' None 10 0"
  have e: "entries one_entry_cache ''k'' = Some ?e" and fresh: "\<not> IsExpired ?e 3"
    by (simp_all add: one_entry_cache_def IsExpired_def)
  have n: "entries ?c ''k'' = Some ?n" and nfresh: "\<not> IsExpired ?n 3"
    by (simp_all add: SetWithTTL_def IsExpired_def)
  have absent: "GetTyped (Concrete T_string) (Some (T_string, 0)) (Delete one_entry_cache ''k'')
        ''k'' 3 = ((Some (T_string, 0), False), Delete one_entry_cache ''k'')"
    by (simp add: GetTyped_def Get_def Delete_def)
  show ?thesis
    using absent
      GetTyped_type_mismatch [OF e fresh, where T = "Concrete T_string"
        and zero = "Some (T_string, 0)" and T' = T_int and x = 1 and ct = T_string
        and ms = "[''Error'']"]
      GetTyped_type_mismatch [OF e fresh, where T = "Interface [''Error'']"
        and zero = None and T' = T_int and x = 1 and ct = T_string
        and ms = "[''Error'']"]
      GetTyped_type_mismatch [OF e fresh, where T = "Interface []"
        and zero = None and T' = T_int and x = 1 and ct = T_string and ms = "[]"]
      GetTyped_type_mismatch [OF n nfresh, where T = "Concrete T_int"
        and zero = "Some (T_int, 0)" and T' = T_int and x = 1 and ct = T_string
        and ms = "[]"]
    by simp
qed

text \<open>
  C8, as stated, fails. The key has an expired entry and the compute function fails: the
  lookup inside \<^verbatim>\<open>GetOrSet\<close> deletes the expired entry, so the cache map is not left
  unchanged.
\<close>

theorem GetOrSet_failure_counterexample:
  "GetOrSet one_entry_cache ''k'' compute_fails 6 7 0
     = ((None, Some ErrTimeout), \<lparr>defaultTTL = 300 * Second, entries = Map.empty\<rparr>, 1, 1)
   \<and> fst (snd (GetOrSet one_entry_cache ''k'' compute_fails 6 7 0)) \<noteq> one_entry_cache"
proof -
  have run: "GetOrSet one_entry_cache ''k'' compute_fails 6 7 0
     = ((None, Some ErrTimeout), \<lparr>defaultTTL = 300 * Second, entries = Map.empty\<rparr>, 1, 1)"
    by (simp add: GetOrSet_def Get_def IsExpired_def Delete_def one_entry_cache_def
        compute_fails_def)
  have "entries \<lparr>defaultTTL = 300 * Second, entries = Map.empty\<rparr> ''k''
          \<noteq> entries one_entry_cache ''k''"
    by (simp add: one_entry_cache_def)
  then have "\<lparr>defaultTTL = 300 * Second, entries = Map.empty\<rparr> \<noteq> one_entry_cache"
    by (rule contrapos_nn) (simp only:)
  then show ?thesis using run by simp
qed

lemma Get_miss':
  "cache_miss c key now \<Longrightarrow> Get c key now = ((None, False), Delete c key)"
  by (auto simp: cache_miss_def Get_def Delete_absent split: option.splits)

lemma GetOrSet_miss:
  assumes "cache_miss c key now_get" and "fn s = ((v, err), s')"
  shows "GetOrSet c key fn now_get now_set s =
     (case err of
        Some e \<Rightarrow> ((None, Some e), Delete c key, s', 1)
      | None \<Rightarrow> ((v, None), Set (Delete c key) key v now_set, s', 1))"
  using assms by (simp add: GetOrSet_def Get_miss' split: option.splits)

text \<open>
  C8, amended. \<^verbatim>\<open>GetOrSet\<close> returns the cached value when the key has a fresh entry, and
  does not invoke \<^verbatim>\<open>fn\<close>. On a miss it invokes \<^verbatim>\<open>fn\<close> once. If \<^verbatim>\<open>fn\<close> returns an error,
  the result is \<^verbatim>\<open>(nil, err)\<close> and the cache is left with no entry for the key and every
  other entry as it was (an expired entry of the key has been deleted by the lookup; the
  map is unchanged when the key was absent), so a later \<^verbatim>\<open>GetOrSet\<close> of the key invokes
  its compute function again. Only on success is the result stored, with the default TTL,
  before it is returned.
\<close>

theorem GetOrSet_never_caches_failure:
  "(entries c key = Some e \<and> \<not> IsExpired e now_get
      \<longrightarrow> GetOrSet c key fn now_get now_set s = ((Value e, None), c, s, 0))
   \<and> (cache_miss c key now_get \<and> fn s = ((v, Some err), s')
      \<longrightarrow> GetOrSet c key fn now_get now_set s = ((None, Some err), Delete c key, s', 1)
          \<and> entries (Delete c key) key = None
          \<and> (\<forall>k. k \<noteq> key \<longrightarrow> entries (Delete c key) k = entries c k)
          \<and> (entries c key = None \<longrightarrow> Delete c key = c)
          \<and> snd (snd (snd (GetOrSet (Delete c key) key fn2 t_get t_set s2))) = 1)
   \<and> (cache_miss c key now_get \<and> fn s = ((v, None), s')
      \<longrightarrow> GetOrSet c key fn now_get now_set s
            = ((v, None), Set (Delete c key) key v now_set, s', 1)
          \<and> entries (Set (Delete c key) key v now_set) key
            = Some \<lparr>Value = v, Expiration = now_set + defaultTTL c\<rparr>)"
proof (intro conjI impI)
  assume "entries c key = Some e \<and> \<not> IsExpired e now_get"
  then show "GetOrSet c key fn now_get now_set s = ((Value e, None), c, s, 0)"
    by (simp add: GetOrSet_def Get_def)
next
  assume a: "cache_miss c key now_get \<and> fn s = ((v, Some err), s')"
  then show "GetOrSet c key fn now_get now_set s = ((None, Some err), Delete c key, s', 1)"
    using GetOrSet_miss [of c key now_get fn s v "Some err" s'] by simp
  show "entries (Delete c key) key = None"
    by (simp add: Delete_def)
  show "\<forall>k. k \<noteq> key \<longrightarrow> entries (Delete c key) k = entries c k"
    by (simp add: Delete_def)
  show "snd (snd (snd (GetOrSet (Delete c key) key fn2 t_get t_set s2))) = 1"
  proof -
    have miss: "cache_miss (Delete c key) key t_get"
      by (simp add: cache_miss_def Delete_def)
    obtain v2 err2 s2' where "fn2 s2 = ((v2, err2), s2')"
      by (metis prod.collapse)
    from GetOrSet_miss [where fn = fn2 and s = s2, OF miss this] show ?thesis
      by (cases err2) simp_all
  qed
next
  assume "cache_miss c key now_get \<and> fn s = ((v, Some err), s')" and "entries c key = None"
  then show "Delete c key = c" by (simp add: Delete_absent)
next
  assume a: "cache_miss c key now_get \<and> fn s = ((v, None), s')"
  then show "GetOrSet c key fn now_get now_set s
            = ((v, None), Set (Delete c key) key v now_set, s', 1)"
    using GetOrSet_miss [of c key now_get fn s v None s'] by simp
  show "entries (Set (Delete c key) key v now_set) key
            = Some \<lparr>Value = v, Expiration = now_set + defaultTTL c\<rparr>"
    by (simp add: Set_def SetWithTTL_def Delete_def)
qed


theorem GetOrSet_never_caches_failure_witness:
  "GetOrSet one_entry_cache ''k'' compute_fails 3 4 0
     = ((Some (T_int, 1), None), one_entry_cache, 0, 0)
   \<and> cache_miss one_entry_cache ''k'' 6
   \<and> GetOrSet one_entry_cache ''k'' compute_fails 6 7 0
     = ((None, Some ErrTimeout), Delete one_entry_cache ''k'', 1, 1)
   \<and> entries (Delete one_entry_cache ''k'') ''k'' = None
   \<and> snd (snd (snd (GetOrSet (Delete one_entry_cache ''k'') ''k'' compute_fails 8 9 1))) = 1
   \<and> cache_miss empty_cache ''k'' 0
   \<and> GetOrSet empty_cache ''k'' compute_succeeds 0 1 0
     = ((Some (T_int, 7), None),
        Set (Delete empty_cache ''k'') ''k'' (Some (T_int, 7)) 1, 1, 1)"
proof -
  have hit: "entries one_entry_cache ''k'' = Some \<lparr>Value = Some (T_int, 1), Expiration = 5\<rparr>
             \<and> \<not> IsExpired \<lparr>Value = Some (T_int, 1::int), Expiration = 5\<rparr> 3"
    by (simp add: one_entry_cache_def IsExpired_def)
  have miss1: "cache_miss one_entry_cache ''k'' 6 \<and> compute_fails 0 = ((None, Some ErrTimeout), 1)"
    by (simp add: cache_miss_def one_entry_cache_def IsExpired_def compute_fails_def)
  have miss2: "cache_miss empty_cache ''k'' 0 \<and> compute_succeeds 0 = ((Some (T_int, 7), None), 1)"
    by (simp add: cache_miss_def empty_cache_def compute_succeeds_def)
  show ?thesis
    using hit miss1 miss2
      GetOrSet_never_caches_failure [where c = one_entry_cache and key = "''k''"
        and e = "\<lparr>Value = Some (T_int, 1), Expiration = 5\<rparr>" and now_get = 3 and now_set = 4
        and fn = compute_fails and s = 0 and s' = 1 and v = None and err = ErrTimeout
        and ?fn2.0 = compute_fails and t_get = 8 and t_set = 9 and ?s2.0 = 1]
      GetOrSet_never_caches_failure [where c = one_entry_cache and key = "''k''"
        and e = "\<lparr>Value = Some (T_int, 1), Expiration = 5\<rparr>" and now_get = 6 and now_set = 7
        and fn = compute_fails and s = 0 and s' = 1 and v = None and err = ErrTimeout
        and ?fn2.0 = compute_fails and t_get = 8 and t_set = 9 and ?s2.0 = 1]
      GetOrSet_never_caches_failure [where c = empty_cache and key = "''k''"
        and e = "\<lparr>Value = Some (T_int, 1), Expiration = 5\<rparr>" and now_get = 0 and now_set = 1
        and fn = compute_succeeds and s = 0 and s' = 1 and v = "Some (T_int, 7)"
        and err = ErrTimeout and ?fn2.0 = compute_fails and t_get = 8 and t_set = 9
        and ?s2.0 = 1]
    by simp
qed

subsection \<open>Error classification\<close>

lemma errors_As_chain: "errors_As P e = (\<exists>x\<in>set (chain e). P x)"
proof (induction P e rule: errors_As.induct)
  case (1 P err)
  show ?case
  proof (cases "Unwrap err")
    case None
    then show ?thesis
      by (subst errors_As.simps, subst chain.simps) simp
  next
    case (Some e)
    have IH: "\<not> P err \<Longrightarrow> errors_As P e = (\<exists>x\<in>set (chain e). P x)"
      using "1.IH" Some by simp
    show ?thesis
      using Some IH by (subst errors_As.simps, subst chain.simps) auto
  qed
qed

lemma errors_Is_chain:
  "(\<forall>c. \<not> APIError_Is c target) \<longrightarrow> errors_Is e target = (target \<in> set (chain e))"
proof (induction e target rule: errors_Is.induct)
  case (1 err target)
  show ?case
  proof
    assume no: "\<forall>c. \<not> APIError_Is c target"
    have m: "\<not> (case Is_method err of Some m \<Rightarrow> m target | None \<Rightarrow> False)"
      using no by (cases err) simp_all
    show "errors_Is err target = (target \<in> set (chain err))"
    proof (cases "Unwrap err")
      case None
      then show ?thesis
        using m by (subst errors_Is.simps, subst chain.simps) auto
    next
      case (Some e)
      have IH: "err \<noteq> target \<Longrightarrow> errors_Is e target = (target \<in> set (chain e))"
        using "1.IH" Some m no by simp
      show ?thesis
        using Some IH m by (subst errors_Is.simps, subst chain.simps) auto
    qed
  qed
qed

lemma IsRetryable_iff:
  "IsRetryable (Some e)
     = (\<exists>x\<in>set (chain e). is_NetworkError x \<or> x = ErrRateLimited \<or> x = ErrTimeout)"
proof -
  have rl: "errors_Is e ErrRateLimited = (ErrRateLimited \<in> set (chain e))"
    using errors_Is_chain [of ErrRateLimited e] by simp
  have to: "errors_Is e ErrTimeout = (ErrTimeout \<in> set (chain e))"
    using errors_Is_chain [of ErrTimeout e] by simp
  show ?thesis
    unfolding IsRetryable_def by (simp only: option.case errors_As_chain rl to) auto
qed

text \<open>
  C4. \<^verbatim>\<open>IsRetryable\<close> is a function of the error value alone. It is false for \<^verbatim>\<open>nil\<close>, true
  for a \<^verbatim>\<open>NetworkError\<close> (whatever it wraps), for \<^verbatim>\<open>ErrRateLimited\<close> and for \<^verbatim>\<open>ErrTimeout\<close>,
  false for a \<^verbatim>\<open>SOAPFault\<close> and for an \<^verbatim>\<open>APIError\<close>, and false for every other error: every
  error in whose \<^verbatim>\<open>Unwrap\<close> chain \<^verbatim>\<open>errors.As\<close> and \<^verbatim>\<open>errors.Is\<close> find none of the three
  retryable kinds. In all, it is true exactly when the chain holds one of the three.
\<close>

theorem IsRetryable_classification:
  "\<not> IsRetryable None
   \<and> IsRetryable (Some (NetworkError opn inner))
   \<and> IsRetryable (Some ErrRateLimited)
   \<and> IsRetryable (Some ErrTimeout)
   \<and> \<not> IsRetryable (Some (SOAPFault fc fs fd))
   \<and> \<not> IsRetryable (Some (APIError ac am ad))
   \<and> ((\<forall>x\<in>set (chain e). \<not> is_NetworkError x \<and> x \<noteq> ErrRateLimited \<and> x \<noteq> ErrTimeout)
        \<longrightarrow> \<not> IsRetryable (Some e))
   \<and> (IsRetryable (Some e)
        \<longleftrightarrow> (\<exists>x\<in>set (chain e). is_NetworkError x \<or> x = ErrRateLimited \<or> x = ErrTimeout))"
proof -
  have direct: "\<not> IsRetryable None" "IsRetryable (Some (NetworkError opn inner))"
    "IsRetryable (Some ErrRateLimited)" "IsRetryable (Some ErrTimeout)"
    "\<not> IsRetryable (Some (SOAPFault fc fs fd))" "\<not> IsRetryable (Some (APIError ac am ad))"
    by (simp_all add: IsRetryable_def errors_eval)
  show ?thesis
    using direct IsRetryable_iff [of e] by blast
qed

theorem IsRetryable_classification_witness:
  "chain (Wrapped ''GetItem'' (Opaque ''unexpected EOF''))
     = [Wrapped ''GetItem'' (Opaque ''unexpected EOF''), Opaque ''unexpected EOF'']
   \<and> \<not> IsRetryable (Some (Wrapped ''GetItem'' (Opaque ''unexpected EOF'')))
   \<and> \<not> IsRetryable (Some ErrNotFound)
   \<and> \<not> IsRetryable (Some Canceled)"
  using IsRetryable_classification [where e = "Wrapped ''GetItem'' (Opaque ''unexpected EOF'')"]
    IsRetryable_classification [where e = ErrNotFound]
    IsRetryable_classification [where e = Canceled]
  by (simp add: errors_eval)

subsection \<open>Dispatcher\<close>

lemma lookup_hit:
  assumes "cache c = Some ch" and "entries ch ''categories'' = Some e"
    and "\<not> IsExpired e now"
  shows "(case cache c of
            None \<Rightarrow> ((None, False), c)
          | Some ch \<Rightarrow> (let (res, ch') = Get ch ''categories'' now
                        in (res, c\<lparr>cache := Some ch'\<rparr>)))
         = ((Value e, True), c)"
proof -
  have "Get ch ''categories'' now = ((Value e, True), ch)"
    using assms(2,3) by (simp add: Get_def)
  moreover have "c\<lparr>cache := Some ch\<rparr> = c"
    using assms(1) by simp
  ultimately show ?thesis using assms(1) by simp
qed

lemma lookup_missed:
  assumes "lookup_miss c now"
  shows "(case cache c of
            None \<Rightarrow> ((None, False), c)
          | Some ch \<Rightarrow> (let (res, ch') = Get ch ''categories'' now
                        in (res, c\<lparr>cache := Some ch'\<rparr>)))
         = ((None, False), after_lookup c)"
  using assms
  by (cases "cache c") (simp_all add: lookup_miss_def after_lookup_def Get_miss')

lemma GetCategories_miss:
  assumes "lookup_miss c now_get"
  shows "GetCategories c ctx fn convertCategories zero wrt rt now_get now_set s =
     (case executeWithMiddlewareResult (after_lookup c) ctx fn zero wrt rt s of
        None \<Rightarrow> None
      | Some ((result, Some err), c2, s', n) \<Rightarrow> Some (Return (Inl err), c2, s', n)
      | Some ((result, None), c2, s', n) \<Rightarrow>
          Some (Return (Inr (convertCategories result)),
                store_categories c2 (convertCategories result) now_set, s', n))"
  unfolding GetCategories_def lookup_missed [OF assms]
  by (simp add: store_categories_def Let_def split: option.splits prod.splits)

lemma after_lookup_fields:
  "rateLimiter (after_lookup c) = rateLimiter c"
  "retryer (after_lookup c) = retryer c"
  by (cases "cache c"; simp add: after_lookup_def)+

lemma execute_after_admission:
  assumes "rateLimiter c = None \<and> c' = c
           \<or> (\<exists>rl rl'. rateLimiter c = Some rl \<and> Wait rl ctx wrt = Some (None, rl')
                  \<and> c' = c\<lparr>rateLimiter := Some rl'\<rparr>)"
  shows "executeWithMiddlewareResult c ctx fn zero wrt rt s =
     (case retryer c of
        Some r \<Rightarrow> (let (res, s', n) = DoWithResult ctx r fn rt zero s in Some (res, c', s', n))
      | None \<Rightarrow> (let (res, s') = fn s in Some (res, c', s', 1)))"
  using assms by (auto simp: executeWithMiddlewareResult_def)

lemma GetCategories_ran:
  assumes "lookup_miss c now_get"
    and "rateLimiter c = None \<and> c' = after_lookup c
         \<or> (\<exists>rl rl'. rateLimiter c = Some rl \<and> Wait rl ctx wrt = Some (None, rl')
                \<and> c' = (after_lookup c)\<lparr>rateLimiter := Some rl'\<rparr>)"
    and "retryer c = None \<and> fn s = ((result, err), s') \<and> n = 1
         \<or> (\<exists>r. retryer c = Some r \<and> DoWithResult ctx r fn rt zero s = ((result, err), s', n))"
  shows "GetCategories c ctx fn convertCategories zero wrt rt now_get now_set s =
     Some (case err of
             Some e \<Rightarrow> (Return (Inl e), c', s', n)
           | None \<Rightarrow> (Return (Inr (convertCategories result)),
                      store_categories c' (convertCategories result) now_set, s', n))"
proof -
  have adm: "rateLimiter (after_lookup c) = None \<and> c' = after_lookup c
           \<or> (\<exists>rl rl'. rateLimiter (after_lookup c) = Some rl
                  \<and> Wait rl ctx wrt = Some (None, rl')
                  \<and> c' = (after_lookup c)\<lparr>rateLimiter := Some rl'\<rparr>)"
    using assms(2) by (simp add: after_lookup_fields)
  have "executeWithMiddlewareResult (after_lookup c) ctx fn zero wrt rt s
          = Some ((result, err), c', s', n)"
    unfolding execute_after_admission [OF adm] after_lookup_fields
    using assms(3) by auto
  then show ?thesis
    by (simp add: GetCategories_miss [OF assms(1)] split: option.split)
qed

text \<open>
  C5. \<^verbatim>\<open>GetCategories\<close>, the cached read endpoint. When the cache holds a fresh entry for
  the key (a category slice), the call returns it and leaves the client, with its
  limiter, and the operation untouched: nothing is invoked; nor is anything invoked when
  the fresh entry holds another value and the type assertion panics. On a miss the order is
  rate limit, then retry, then operation, each middleware being skipped when it is not
  configured. If \<^verbatim>\<open>Wait\<close> returns an error, that error is returned and the operation is not
  invoked. Otherwise, after the single \<^verbatim>\<open>Wait\<close> if there is a limiter, the operation runs
  inside the retryer if there is one and is invoked exactly once if there is none; its
  error is returned, or its result is converted, stored if there is a cache, and
  returned.
\<close>

theorem GetCategories_composition:
  "(cache c = Some ch \<and> entries ch ''categories'' = Some e \<and> \<not> IsExpired e now_get
      \<and> Value e = Some (T_CategorySlice, categories)
     \<longrightarrow> GetCategories c ctx fn convertCategories zero wrt rt now_get now_set s
           = Some (Return (Inr categories), c, s, 0))
   \<and> (lookup_miss c now_get \<and> rateLimiter c = Some rl
        \<and> Wait rl ctx wrt = Some (Some werr, rl')
     \<longrightarrow> GetCategories c ctx fn convertCategories zero wrt rt now_get now_set s
           = Some (Return (Inl werr), (after_lookup c)\<lparr>rateLimiter := Some rl'\<rparr>, s, 0))
   \<and> (lookup_miss c now_get \<and> rateLimiter c = Some rl \<and> Wait rl ctx wrt = Some (None, rl')
        \<and> retryer c = Some r \<and> DoWithResult ctx r fn rt zero s = ((result, err), s', n)
     \<longrightarrow> GetCategories c ctx fn convertCategories zero wrt rt now_get now_set s
           = Some (case err of
                     Some e \<Rightarrow> (Return (Inl e), (after_lookup c)\<lparr>rateLimiter := Some rl'\<rparr>, s', n)
                   | None \<Rightarrow>
                       (Return (Inr (convertCategories result)),
                        store_categories ((after_lookup c)\<lparr>rateLimiter := Some rl'\<rparr>)
                          (convertCategories result) now_set, s', n)))
   \<and> (lookup_miss c now_get \<and> rateLimiter c = Some rl \<and> Wait rl ctx wrt = Some (None, rl')
        \<and> retryer c = None \<and> fn s = ((result, err), s')
     \<longrightarrow> GetCategories c ctx fn convertCategories zero wrt rt now_get now_set s
           = Some (case err of
                     Some e \<Rightarrow> (Return (Inl e), (after_lookup c)\<lparr>rateLimiter := Some rl'\<rparr>, s', 1)
                   | None \<Rightarrow>
                       (Return (Inr (convertCategories result)),
                        store_categories ((after_lookup c)\<lparr>rateLimiter := Some rl'\<rparr>)
                          (convertCategories result) now_set, s', 1)))
   \<and> (lookup_miss c now_get \<and> rateLimiter c = None
        \<and> retryer c = Some r \<and> DoWithResult ctx r fn rt zero s = ((result, err), s', n)
     \<longrightarrow> GetCategories c ctx fn convertCategories zero wrt rt now_get now_set s
           = Some (case err of
                     Some e \<Rightarrow> (Return (Inl e), after_lookup c, s', n)
                   | None \<Rightarrow>
                       (Return (Inr (convertCategories result)),
                        store_categories (after_lookup c) (convertCategories result) now_set,
                        s', n)))
   \<and> (lookup_miss c now_get \<and> rateLimiter c = None
        \<and> retryer c = None \<and> fn s = ((result, err), s')
     \<longrightarrow> GetCategories c ctx fn convertCategories zero wrt rt now_get now_set s
           = Some (case err of
                     Some e \<Rightarrow> (Return (Inl e), after_lookup c, s', 1)
                   | None \<Rightarrow>
                       (Return (Inr (convertCategories result)),
                        store_categories (after_lookup c) (convertCategories result) now_set,
                        s', 1)))
   \<and> (cache c = Some ch \<and> entries ch ''categories'' = Some e \<and> \<not> IsExpired e now_get
        \<and> type_assert (Concrete T_CategorySlice) (Value e) = None
     \<longrightarrow> GetCategories c ctx fn convertCategories zero wrt rt now_get now_set s
           = Some (Panic, c, s, 0))"
proof (intro conjI impI)
  assume "cache c = Some ch \<and> entries ch ''categories'' = Some e \<and> \<not> IsExpired e now_get
      \<and> Value e = Some (T_CategorySlice, categories)"
  then show "GetCategories c ctx fn convertCategories zero wrt rt now_get now_set s
           = Some (Return (Inr categories), c, s, 0)"
    unfolding GetCategories_def using lookup_hit [of c ch e now_get] by simp
next
  assume a: "lookup_miss c now_get \<and> rateLimiter c = Some rl
        \<and> Wait rl ctx wrt = Some (Some werr, rl')"
  then have "executeWithMiddlewareResult (after_lookup c) ctx fn zero wrt rt s
      = Some ((zero, Some werr), (after_lookup c)\<lparr>rateLimiter := Some rl'\<rparr>, s, 0)"
    by (simp add: executeWithMiddlewareResult_def after_lookup_fields)
  then show "GetCategories c ctx fn convertCategories zero wrt rt now_get now_set s
           = Some (Return (Inl werr), (after_lookup c)\<lparr>rateLimiter := Some rl'\<rparr>, s, 0)"
    using a by (simp add: GetCategories_miss)
next
  assume "lookup_miss c now_get \<and> rateLimiter c = Some rl \<and> Wait rl ctx wrt = Some (None, rl')
        \<and> retryer c = Some r \<and> DoWithResult ctx r fn rt zero s = ((result, err), s', n)"
  then show "GetCategories c ctx fn convertCategories zero wrt rt now_get now_set s
           = Some (case err of
                     Some e \<Rightarrow> (Return (Inl e), (after_lookup c)\<lparr>rateLimiter := Some rl'\<rparr>, s', n)
                   | None \<Rightarrow>
                       (Return (Inr (convertCategories result)),
                        store_categories ((after_lookup c)\<lparr>rateLimiter := Some rl'\<rparr>)
                          (convertCategories result) now_set, s', n))"
    by (intro GetCategories_ran) auto
next
  assume "lookup_miss c now_get \<and> rateLimiter c = Some rl \<and> Wait rl ctx wrt = Some (None, rl')
        \<and> retryer c = None \<and> fn s = ((result, err), s')"
  then show "GetCategories c ctx fn convertCategories zero wrt rt now_get now_set s
           = Some (case err of
                     Some e \<Rightarrow> (Return (Inl e), (after_lookup c)\<lparr>rateLimiter := Some rl'\<rparr>, s', 1)
                   | None \<Rightarrow>
                       (Return (Inr (convertCategories result)),
                        store_categories ((after_lookup c)\<lparr>rateLimiter := Some rl'\<rparr>)
                          (convertCategories result) now_set, s', 1))"
    by (intro GetCategories_ran) auto
next
  assume "lookup_miss c now_get \<and> rateLimiter c = None
        \<and> retryer c = Some r \<and> DoWithResult ctx r fn rt zero s = ((result, err), s', n)"
  then show "GetCategories c ctx fn convertCategories zero wrt rt now_get now_set s
           = Some (case err of
                     Some e \<Rightarrow> (Return (Inl e), after_lookup c, s', n)
                   | None \<Rightarrow>
                       (Return (Inr (convertCategories result)),
                        store_categories (after_lookup c) (convertCategories result) now_set,
                        s', n))"
    by (intro GetCategories_ran) auto
next
  assume "lookup_miss c now_get \<and> rateLimiter c = None
        \<and> retryer c = None \<and> fn s = ((result, err), s')"
  then show "GetCategories c ctx fn convertCategories zero wrt rt now_get now_set s
           = Some (case err of
                     Some e \<Rightarrow> (Return (Inl e), after_lookup c, s', 1)
                   | None \<Rightarrow>
                       (Return (Inr (convertCategories result)),
                        store_categories (after_lookup c) (convertCategories result) now_set,
                        s', 1))"
    by (intro GetCategories_ran) auto
next
  assume "cache c = Some ch \<and> entries ch ''categories'' = Some e \<and> \<not> IsExpired e now_get
        \<and> type_assert (Concrete T_CategorySlice) (Value e) = None"
  then show "GetCategories c ctx fn convertCategories zero wrt rt now_get now_set s
           = Some (Panic, c, s, 0)"
    unfolding GetCategories_def using lookup_hit [of c ch e now_get] by simp
qed

lemma DoWithResult_remote_call:
  "DoWithResult ctx client_Retryer remote_call rt 0 0 = ((10, None), 1, 1)"
  by (simp add: DoWithResult_def DoWithResult_loop.simps client_Retryer_def MaxRetries_client
      remote_call_def)

lemma DoWithResult_remote_call_rejected:
  "DoWithResult ctx client_Retryer remote_call_rejected rt 0 0
     = ((0, Some (SOAPFault ''Client'' ''bad request'' '''')), 1, 1)"
  by (simp add: DoWithResult_def DoWithResult_loop.simps client_Retryer_def MaxRetries_client
      remote_call_rejected_def config_NewRetryer client_RetryConfig_def IsRetryable_def
      errors_eval)

lemma Wait_full_bucket:
  "Wait (NewRateLimiter 5 0) ctx (fixed_wait_runtime 0)
     = Some (None, \<lparr>rate = 5, bucketSize = 5, tokens = 4, lastUpdate = 0\<rparr>)"
proof -
  have "TryAcquire (wait_Now (fixed_wait_runtime 0) 0) (NewRateLimiter 5 0)
          = (True, \<lparr>rate = 5, bucketSize = 5, tokens = 4, lastUpdate = 0\<rparr>)"
    by (simp add: TryAcquire_def refillTokens_def NewRateLimiter_def NewRateLimiterWithBurst_def
        fixed_wait_runtime_def Seconds_def Let_def)
  from Wait_first_iteration [OF this, of ctx] show ?thesis by simp
qed

lemma Wait_drained_cancelled:
  "Wait drained_limiter (Cancelled Canceled) (fixed_wait_runtime 0)
     = Some (Some Canceled, drained_limiter)"
proof -
  have t: "TryAcquire (wait_Now (fixed_wait_runtime 0) 0) drained_limiter
          = (False, drained_limiter)"
    by (simp add: TryAcquire_def refillTokens_def drained_limiter_def
        fixed_wait_runtime_def Seconds_def Let_def)
  have d: "0 < timeUntilNextToken drained_limiter"
    by (simp add: drained_limiter_def timeUntilNextToken_def Second_def Duration_def
        MinInt64_def Let_def)
  from Wait_first_iteration [OF t, of "Cancelled Canceled"] d show ?thesis by simp
qed

theorem GetCategories_composition_witness:
  "GetCategories
      (client_of (Some (NewRateLimiter 5 0)) (Some client_Retryer) (Some categories_cache))
      Uncancelled remote_call (\<lambda>x. x + 1) 0 (fixed_wait_runtime 0) fixed_runtime 3 4 0
     = Some (Return (Inr 11),
             client_of (Some (NewRateLimiter 5 0)) (Some client_Retryer) (Some categories_cache),
             0, 0)
   \<and> GetCategories
      (client_of (Some drained_limiter) (Some client_Retryer) (Some categories_cache))
      (Cancelled Canceled) remote_call (\<lambda>x. x + 1) 0 (fixed_wait_runtime 0) fixed_runtime 6 7 0
     = Some (Return (Inl Canceled),
             (after_lookup
                (client_of (Some drained_limiter) (Some client_Retryer) (Some categories_cache)))
               \<lparr>rateLimiter := Some drained_limiter\<rparr>, 0, 0)
   \<and> GetCategories
      (client_of (Some (NewRateLimiter 5 0)) (Some client_Retryer) (Some categories_cache))
      Uncancelled remote_call (\<lambda>x. x + 1) 0 (fixed_wait_runtime 0) fixed_runtime 6 7 0
     = Some (Return (Inr 11),
             store_categories
               ((after_lookup
                   (client_of (Some (NewRateLimiter 5 0)) (Some client_Retryer)
                      (Some categories_cache)))
                  \<lparr>rateLimiter := Some \<lparr>rate = 5, bucketSize = 5, tokens = 4, lastUpdate = 0\<rparr>\<rparr>)
               11 7,
             1, 1)
   \<and> GetCategories (client_of (Some (NewRateLimiter 5 0)) None (Some categories_cache))
      Uncancelled remote_call (\<lambda>x. x + 1) 0 (fixed_wait_runtime 0) fixed_runtime 6 7 0
     = Some (Return (Inr 11),
             store_categories
               ((after_lookup (client_of (Some (NewRateLimiter 5 0)) None (Some categories_cache)))
                  \<lparr>rateLimiter := Some \<lparr>rate = 5, bucketSize = 5, tokens = 4, lastUpdate = 0\<rparr>\<rparr>)
               11 7,
             1, 1)
   \<and> GetCategories (client_of None (Some client_Retryer) None)
      Uncancelled remote_call_rejected (\<lambda>x. x + 1) 0 (fixed_wait_runtime 0) fixed_runtime 6 7 0
     = Some (Return (Inl (SOAPFault ''Client'' ''bad request'' '''')),
             after_lookup (client_of None (Some client_Retryer) None), 1, 1)
   \<and> GetCategories (client_of None None None)
      Uncancelled remote_call (\<lambda>x. x + 1) 0 (fixed_wait_runtime 0) fixed_runtime 6 7 0
     = Some (Return (Inr 11),
             store_categories (after_lookup (client_of None None None)) 11 7, 1, 1)
   \<and> GetCategories (client_of None None (Some mistyped_cache))
      Uncancelled remote_call (\<lambda>x. x + 1) 0 (fixed_wait_runtime 0) fixed_runtime 3 4 0
     = Some (Panic, client_of None None (Some mistyped_cache), 0, 0)"
proof -
  let ?e = "\<lparr>Value = Some (T_CategorySlice, 11::int), Expiration = 5\<rparr>"
  let ?rl4 = "\<lparr>rate = 5, bucketSize = 5, tokens = 4, lastUpdate = 0\<rparr>"
  have fields: "cache (client_of rl r ch) = ch" "rateLimiter (client_of rl r ch) = rl"
    "retryer (client_of rl r ch) = r" for rl r ch
    by (simp_all add: client_of_def)
  have entry: "entries categories_cache ''categories'' = Some ?e"
    by (simp add: categories_cache_def)
  have fresh: "\<not> IsExpired ?e 3" and val: "Value ?e = Some (T_CategorySlice, 11)"
    by (simp_all add: IsExpired_def)
  have miss: "lookup_miss (client_of rl r (Some categories_cache)) 6"
    "lookup_miss (client_of rl r None) 6" for rl r
    by (simp_all add: lookup_miss_def cache_miss_def fields entry IsExpired_def)
  have call: "remote_call 0 = ((10, None), 1)"
    by (simp add: remote_call_def)
  note T = GetCategories_composition
  have w1: "GetCategories
      (client_of (Some (NewRateLimiter 5 0)) (Some client_Retryer) (Some categories_cache))
      Uncancelled remote_call (\<lambda>x. x + 1) 0 (fixed_wait_runtime 0) fixed_runtime 3 4 0
     = Some (Return (Inr 11),
             client_of (Some (NewRateLimiter 5 0)) (Some client_Retryer) (Some categories_cache),
             0, 0)"
    using T [where ch = categories_cache and e = ?e and categories = 11
        and now_get = 3
        and c = "client_of (Some (NewRateLimiter 5 0)) (Some client_Retryer) (Some categories_cache)",
        THEN conjunct1]
      fields entry fresh val by simp
  have w2: "GetCategories
      (client_of (Some drained_limiter) (Some client_Retryer) (Some categories_cache))
      (Cancelled Canceled) remote_call (\<lambda>x. x + 1) 0 (fixed_wait_runtime 0) fixed_runtime 6 7 0
     = Some (Return (Inl Canceled),
             (after_lookup
                (client_of (Some drained_limiter) (Some client_Retryer) (Some categories_cache)))
               \<lparr>rateLimiter := Some drained_limiter\<rparr>, 0, 0)"
    using T [where rl = drained_limiter and rl' = drained_limiter
        and werr = Canceled and now_get = 6 and ctx = "Cancelled Canceled"
        and wrt = "fixed_wait_runtime 0"
        and c = "client_of (Some drained_limiter) (Some client_Retryer) (Some categories_cache)",
        THEN conjunct2, THEN conjunct1]
      fields miss Wait_drained_cancelled by simp
  have w3: "GetCategories
      (client_of (Some (NewRateLimiter 5 0)) (Some client_Retryer) (Some categories_cache))
      Uncancelled remote_call (\<lambda>x. x + 1) 0 (fixed_wait_runtime 0) fixed_runtime 6 7 0
     = Some (Return (Inr 11),
             store_categories
               ((after_lookup
                   (client_of (Some (NewRateLimiter 5 0)) (Some client_Retryer)
                      (Some categories_cache)))
                  \<lparr>rateLimiter := Some ?rl4\<rparr>)
               11 7,
             1, 1)"
    using T [where rl = "NewRateLimiter 5 0"
        and rl' = ?rl4 and r = client_Retryer and result = 10 and err = None and s' = 1
        and n = 1 and now_get = 6 and ctx = Uncancelled and wrt = "fixed_wait_runtime 0"
        and fn = remote_call and rt = fixed_runtime and zero = 0 and s = 0
        and c = "client_of (Some (NewRateLimiter 5 0)) (Some client_Retryer) (Some categories_cache)",
        THEN conjunct2, THEN conjunct2, THEN conjunct1]
      fields miss Wait_full_bucket [of Uncancelled]
      DoWithResult_remote_call [of Uncancelled fixed_runtime] by simp
  have w4: "GetCategories (client_of (Some (NewRateLimiter 5 0)) None (Some categories_cache))
      Uncancelled remote_call (\<lambda>x. x + 1) 0 (fixed_wait_runtime 0) fixed_runtime 6 7 0
     = Some (Return (Inr 11),
             store_categories
               ((after_lookup (client_of (Some (NewRateLimiter 5 0)) None (Some categories_cache)))
                  \<lparr>rateLimiter := Some ?rl4\<rparr>)
               11 7,
             1, 1)"
    using T [where rl = "NewRateLimiter 5 0" and rl' = ?rl4 and result = 10 and err = None
        and s' = 1 and now_get = 6 and ctx = Uncancelled and wrt = "fixed_wait_runtime 0"
        and fn = remote_call and s = 0
        and c = "client_of (Some (NewRateLimiter 5 0)) None (Some categories_cache)",
        THEN conjunct2, THEN conjunct2, THEN conjunct2, THEN conjunct1]
      fields miss Wait_full_bucket [of Uncancelled] call by simp
  have w5: "GetCategories (client_of None (Some client_Retryer) None)
      Uncancelled remote_call_rejected (\<lambda>x. x + 1) 0 (fixed_wait_runtime 0) fixed_runtime 6 7 0
     = Some (Return (Inl (SOAPFault ''Client'' ''bad request'' '''')),
             after_lookup (client_of None (Some client_Retryer) None), 1, 1)"
    using T [where r = client_Retryer and result = 0
        and err = "Some (SOAPFault ''Client'' ''bad request'' '''')" and s' = 1 and n = 1
        and now_get = 6 and ctx = Uncancelled and fn = remote_call_rejected
        and rt = fixed_runtime and zero = 0 and s = 0
        and c = "client_of None (Some client_Retryer) None",
        THEN conjunct2, THEN conjunct2, THEN conjunct2, THEN conjunct2, THEN conjunct1]
      fields miss DoWithResult_remote_call_rejected [of Uncancelled fixed_runtime] by simp
  have w6: "GetCategories (client_of None None None)
      Uncancelled remote_call (\<lambda>x. x + 1) 0 (fixed_wait_runtime 0) fixed_runtime 6 7 0
     = Some (Return (Inr 11),
             store_categories (after_lookup (client_of None None None)) 11 7, 1, 1)"
    using T [where result = 10 and err = None and s' = 1 and now_get = 6 and fn = remote_call
        and s = 0 and c = "client_of None None None",
        THEN conjunct2, THEN conjunct2, THEN conjunct2, THEN conjunct2, THEN conjunct2,
        THEN conjunct1]
      fields miss call by simp
  have w7: "GetCategories (client_of None None (Some mistyped_cache))
      Uncancelled remote_call (\<lambda>x. x + 1) 0 (fixed_wait_runtime 0) fixed_runtime 3 4 0
     = Some (Panic, client_of None None (Some mistyped_cache), 0, 0)"
    using T [where ch = mistyped_cache
        and e = "\<lparr>Value = Some (T_int, 1), Expiration = 5\<rparr>" and now_get = 3
        and c = "client_of None None (Some mistyped_cache)",
        THEN conjunct2, THEN conjunct2, THEN conjunct2, THEN conjunct2, THEN conjunct2,
        THEN conjunct2]
      fields by (simp add: mistyped_cache_def IsExpired_def)
  show ?thesis using w1 w2 w3 w4 w5 w6 w7 by simp
qed

end
